theory Spec2Isabelle
  imports Complex_Main "HOL-Library.Word"
begin

unbundle bit_operations_syntax

section \<open>The VFS bridge of apsw (src/vfs.c)\<close>

text \<open>
  The file \<^verbatim>\<open>src/vfs.c\<close> turns calls of the SQLite engine on a \<^verbatim>\<open>sqlite3_vfs\<close> or a
  \<^verbatim>\<open>sqlite3_file\<close> into calls of Python methods (the functions \<^verbatim>\<open>apswvfs_*\<close> and
  \<^verbatim>\<open>apswvfsfile_*\<close>), and Python calls into calls of an inherited native implementation
  (the functions \<^verbatim>\<open>apswvfspy_*\<close> and \<^verbatim>\<open>apswvfsfilepy_*\<close>).

  Conventions of the embedding.
  \<^item> C values of type \<^verbatim>\<open>int\<close>, \<^verbatim>\<open>long\<close> and \<^verbatim>\<open>sqlite3_int64\<close> are HOL integers; a cast that
    can lose bits is written out (\<open>cast_int\<close>). Python integers are unbounded.
  \<^item> A memory buffer is a list of bytes. An operation of C whose behaviour is undefined (a
    copy past the end of a buffer, a null function pointer, a failed \<^verbatim>\<open>assert\<close>) makes the
    modelled function return \<open>None\<close>.
  \<^item> The interpreter's error indicator, the sink that receives unraisable errors and
    whether memory is exhausted (then every allocation fails) are one record, \<open>pystate\<close>,
    passed through every function.
  \<^item> \<^verbatim>\<open>Call_PythonMethodV\<close>, \<^verbatim>\<open>MakeSqliteMsgFromPyException\<close>, \<^verbatim>\<open>getutf8string\<close>,
    \<^verbatim>\<open>PyFloat_AsDouble\<close> and the other helpers that vfs.c uses but does not define are
    parameters or are modelled from their contract, as said at each of them.
  \<^item> The interpreter lock (\<^verbatim>\<open>PyGILState_Ensure\<close>, \<^verbatim>\<open>PyGILState_Release\<close>), reference counts
    and the test-only macro \<^verbatim>\<open>APSW_FAULT_INJECT\<close> (which runs its first argument outside the
    test suite) are not modelled.
\<close>

subsection \<open>Values\<close>

type_synonym byte = "8 word"

text \<open>
  Python objects, as far as vfs.c tells them apart. \<open>PyInt\<close> stands for \<^verbatim>\<open>int\<close>, \<^verbatim>\<open>long\<close> and
  \<^verbatim>\<open>bool\<close> (a subclass of int); \<open>PyBytes\<close> for \<^verbatim>\<open>bytes\<close> (Python 2 \<^verbatim>\<open>str\<close>); \<open>PyBuffer\<close> for any
  other object with a single-segment read buffer; \<open>PyUnicode\<close> for a text string, given by
  its code points; \<open>PyOpaque\<close> for every other object. The value of a \<^verbatim>\<open>float\<close> is a C
  \<^verbatim>\<open>double\<close>: a finite number, an infinity or a NaN.
\<close>

datatype double = Finite real | PlusInfinity | MinusInfinity | NaN

datatype pyobj =
    Py_None
  | PyInt int
  | PyFloat double
  | PyUnicode "nat list"
  | PyBytes "byte list"
  | PyBuffer "byte list"
  | PyList "pyobj list"
  | PyOpaque nat

text \<open>
  Exceptions. \<open>APSWException res\<close> is the exception that \<^verbatim>\<open>SET_EXC(res, NULL)\<close> raises for
  the SQLite result code \<open>res\<close>; \<open>PyExc_Other\<close> is any other exception class a managed
  method may raise.
\<close>

datatype pyexc =
    PyExc_TypeError string
  | PyExc_ValueError string
  | PyExc_OverflowError string
  | PyExc_SystemError string
  | PyExc_MemoryError
  | ExcVFSNotImplemented string
  | ExcVFSFileClosed string
  | APSWException int
  | PyExc_Other nat

text \<open>A raised exception with the frames \<^verbatim>\<open>AddTraceBackHere\<close> has added to it.\<close>

type_synonym pyerr = "pyexc \<times> string list"

record pystate =
  pending :: "pyerr option"
  unraisable :: "(pyobj option \<times> pyerr) list"
  nomem :: bool

subsection \<open>SQLite result codes (sqlite3.h)\<close>

definition SQLITE_OK :: int where "SQLITE_OK = 0"
definition SQLITE_ERROR :: int where "SQLITE_ERROR = 1"
definition SQLITE_BUSY :: int where "SQLITE_BUSY = 5"
definition SQLITE_IOERR :: int where "SQLITE_IOERR = 10"
definition SQLITE_CANTOPEN :: int where "SQLITE_CANTOPEN = 14"
definition SQLITE_TOOBIG :: int where "SQLITE_TOOBIG = 18"
definition SQLITE_IOERR_SHORT_READ :: int where
  "SQLITE_IOERR_SHORT_READ = SQLITE_IOERR OR push_bit 8 2"

subsection \<open>C integers and memory\<close>

definition LONG_MIN :: int where "LONG_MIN = - (2 ^ 63)"
definition LONG_MAX :: int where "LONG_MAX = 2 ^ 63 - 1"
definition INT_MIN :: int where "INT_MIN = - (2 ^ 31)"
definition INT_MAX :: int where "INT_MAX = 2 ^ 31 - 1"

text \<open>The cast \<^verbatim>\<open>(int)x\<close> of a wider integer keeps the low 32 bits.\<close>

definition cast_int :: "int \<Rightarrow> int" where
  "cast_int x = sint (word_of_int x :: 32 word)"

text \<open>\<^verbatim>\<open>!!x\<close>\<close>

definition not_not :: "int \<Rightarrow> int" where
  "not_not x = (if x = 0 then 0 else 1)"

text \<open>
  \<^verbatim>\<open>memset(dst, c, n)\<close> and \<^verbatim>\<open>memcpy(dst, src, n)\<close>: the first \<open>n\<close> bytes of \<open>dst\<close> are
  overwritten, the others kept. A negative count converts to a huge \<^verbatim>\<open>size_t\<close>; that and
  any count beyond either buffer is undefined.
\<close>

definition memset :: "byte list \<Rightarrow> byte \<Rightarrow> int \<Rightarrow> byte list option" where
  "memset dst c n =
     (if 0 \<le> n \<and> nat n \<le> length dst
      then Some (replicate (nat n) c @ drop (nat n) dst) else None)"

definition memcpy :: "byte list \<Rightarrow> byte list \<Rightarrow> int \<Rightarrow> byte list option" where
  "memcpy dst src n =
     (if 0 \<le> n \<and> nat n \<le> length dst \<and> nat n \<le> length src
      then Some (take (nat n) src @ drop (nat n) dst) else None)"

subsection \<open>The interpreter's error indicator\<close>

definition PyErr_Occurred :: "pystate \<Rightarrow> bool" where
  "PyErr_Occurred s = (pending s \<noteq> None)"

definition PyErr_Fetch :: "pystate \<Rightarrow> pyerr option \<times> pystate" where
  "PyErr_Fetch s = (pending s, s\<lparr>pending := None\<rparr>)"

definition PyErr_Restore :: "pyerr option \<Rightarrow> pystate \<Rightarrow> pystate" where
  "PyErr_Restore e s = s\<lparr>pending := e\<rparr>"

definition PyErr_Clear :: "pystate \<Rightarrow> pystate" where
  "PyErr_Clear s = s\<lparr>pending := None\<rparr>"

text \<open>\<^verbatim>\<open>PyErr_Format(cls, msg)\<close> and \<^verbatim>\<open>PyErr_NoMemory()\<close> replace whatever is pending.\<close>

definition PyErr_Format :: "pyexc \<Rightarrow> pystate \<Rightarrow> pystate" where
  "PyErr_Format e s = s\<lparr>pending := Some (e, [])\<rparr>"

text \<open>
  Modelled from the spec: the macro \<^verbatim>\<open>SET_EXC(res, db)\<close> is defined outside src/. It "maps a
  native error code to a raised managed-side condition": for a result other than
  \<^verbatim>\<open>SQLITE_OK\<close> it raises the exception of that code, unless an exception is pending
  already, which it leaves in place.
\<close>

definition SET_EXC :: "int \<Rightarrow> pystate \<Rightarrow> pystate" where
  "SET_EXC res s =
     (if res \<noteq> SQLITE_OK \<and> \<not> PyErr_Occurred s then PyErr_Format (APSWException res) s else s)"

text \<open>
  Modelled from the spec: \<^verbatim>\<open>AddTraceBackHere\<close> is defined outside src/. It attaches "a
  diagnostic note" to the pending exception: here the name of the function, its third
  argument.
\<close>

definition AddTraceBackHere :: "string \<Rightarrow> pystate \<Rightarrow> pystate" where
  "AddTraceBackHere fn s =
     (case pending s of None \<Rightarrow> s | Some (e, tb) \<Rightarrow> s\<lparr>pending := Some (e, tb @ [fn])\<rparr>)"

text \<open>
  Modelled from the spec: \<^verbatim>\<open>apsw_write_unraiseable(hookobject)\<close> is defined outside src/. It
  is the "unraisable-fault sink": the pending exception is handed to the \<^verbatim>\<open>excepthook\<close> of
  \<open>hookobject\<close> (of \<^verbatim>\<open>sys\<close> when the object is null) and is no longer pending afterwards.
\<close>

definition apsw_write_unraiseable :: "pyobj option \<Rightarrow> pystate \<Rightarrow> pystate" where
  "apsw_write_unraiseable hookobject s =
     (case pending s of
        None \<Rightarrow> s
      | Some e \<Rightarrow> s\<lparr>pending := None, unraisable := unraisable s @ [(hookobject, e)]\<rparr>)"

text \<open>
  \<^verbatim>\<open>MakeSqliteMsgFromPyException(NULL)\<close> is defined outside src/: it converts the pending
  exception to a result code and leaves it pending. The conversion \<open>mk\<close> of an exception
  to its code is a parameter of every function that uses it. It is only called with an
  exception pending; \<^verbatim>\<open>SQLITE_ERROR\<close> stands for the call without one.
\<close>

definition MakeSqliteMsgFromPyException :: "(pyexc \<Rightarrow> int) \<Rightarrow> pystate \<Rightarrow> int" where
  "MakeSqliteMsgFromPyException mk s =
     (case pending s of None \<Rightarrow> SQLITE_ERROR | Some (e, tb) \<Rightarrow> mk e)"

text \<open>
  \<^verbatim>\<open>Call_PythonMethodV(obj, name, mandatory, format, ...)\<close> is defined outside src/. What the
  managed method does is the parameter \<open>m\<close>: it returns an object, or it raises, and then
  the call returns null with the exception pending.
\<close>

datatype managed_result = Returns pyobj | Raises pyexc

definition Call_PythonMethodV :: "managed_result \<Rightarrow> pystate \<Rightarrow> pyobj option \<times> pystate" where
  "Call_PythonMethodV m s =
     (case m of Returns r \<Rightarrow> (Some r, s) | Raises e \<Rightarrow> (None, PyErr_Format e s))"

subsection \<open>Python objects seen from C\<close>

definition PyIntLong_Check :: "pyobj \<Rightarrow> bool" where
  "PyIntLong_Check ob = (case ob of PyInt i \<Rightarrow> True | _ \<Rightarrow> False)"

definition PyUnicode_Check :: "pyobj \<Rightarrow> bool" where
  "PyUnicode_Check ob = (case ob of PyUnicode u \<Rightarrow> True | _ \<Rightarrow> False)"

text \<open>
  \<^verbatim>\<open>PyIntLong_AsLong\<close>: the value as a C \<^verbatim>\<open>long\<close> (64 bits here); for an integer that does
  not fit, and for an object that is no integer, \<open>-1\<close> with an exception pending ("returns
  -1 on error/overflow", as vfs.c puts it).
\<close>

definition PyIntLong_AsLong :: "pyobj \<Rightarrow> pystate \<Rightarrow> int \<times> pystate" where
  "PyIntLong_AsLong ob s =
     (case ob of
        PyInt i \<Rightarrow>
          if LONG_MIN \<le> i \<and> i \<le> LONG_MAX then (i, s)
          else (-1, PyErr_Format (PyExc_OverflowError ''Python int too large to convert to C long'') s)
      | _ \<Rightarrow> (-1, PyErr_Format (PyExc_TypeError ''an integer is required'') s))"

text \<open>
  The old buffer protocol. Python 2 \<^verbatim>\<open>unicode\<close> objects have a read buffer too (their
  internal representation, which is why vfs.c rejects them first); its bytes are not
  modelled.
\<close>

definition PyObject_CheckReadBuffer :: "pyobj \<Rightarrow> bool" where
  "PyObject_CheckReadBuffer ob =
     (case ob of PyBytes b \<Rightarrow> True | PyBuffer b \<Rightarrow> True | PyUnicode u \<Rightarrow> True | _ \<Rightarrow> False)"

definition PyObject_AsReadBuffer :: "pyobj \<Rightarrow> pystate \<Rightarrow> byte list option \<times> pystate" where
  "PyObject_AsReadBuffer ob s =
     (case ob of
        PyBytes b \<Rightarrow> (Some b, s)
      | PyBuffer b \<Rightarrow> (Some b, s)
      | _ \<Rightarrow> (None, PyErr_Format (PyExc_TypeError ''expected a readable buffer object'') s))"

subsection \<open>The preamble and postamble of every native entry point\<close>

text \<open>
  \<^verbatim>\<open>APSWSQLite3File\<close>, the \<^verbatim>\<open>sqlite3_file\<close> of a file opened through the bridge: whether
  \<^verbatim>\<open>pMethods\<close> points to \<^verbatim>\<open>apsw_io_methods\<close>, and the managed file object (the member
  \<^verbatim>\<open>file\<close>, a reserved word here).
\<close>

record APSWSQLite3File =
  pMethods_set :: bool
  pyfile :: "pyobj option"

text \<open>
  \<^verbatim>\<open>FILEPREAMBLE\<close> fetches the pending exception into local variables and asserts
  \<^verbatim>\<open>apswfile->file\<close> (\<^verbatim>\<open>CHECKVFSFILE\<close>); \<^verbatim>\<open>FILEPOSTAMBLE\<close> sends what is pending now to the
  sink and restores the fetched exception. \<^verbatim>\<open>VFSPREAMBLE\<close> and \<^verbatim>\<open>VFSPOSTAMBLE\<close> do the same
  with \<^verbatim>\<open>vfs->pAppData\<close>.
\<close>

definition FILEPREAMBLE :: "APSWSQLite3File \<Rightarrow> pystate \<Rightarrow> (pyerr option \<times> pystate) option" where
  "FILEPREAMBLE apswfile s =
     (if pyfile apswfile = None then None else Some (PyErr_Fetch s))"

definition FILEPOSTAMBLE :: "APSWSQLite3File \<Rightarrow> pyerr option \<Rightarrow> pystate \<Rightarrow> pystate" where
  "FILEPOSTAMBLE apswfile saved s =
     PyErr_Restore saved
       (if PyErr_Occurred s then apsw_write_unraiseable (pyfile apswfile) s else s)"

text \<open>
  The members of \<^verbatim>\<open>sqlite3_vfs\<close> that vfs.c reads or writes. \<open>xMethods\<close> stands for the
  twelve function pointers: those of an instance made by \<^verbatim>\<open>APSWVFS_init\<close> are the functions
  \<^verbatim>\<open>apswvfs_x*\<close>, which is what \<^verbatim>\<open>basevfs->xAccess==apswvfs_xAccess\<close> asks.
\<close>

datatype vfs_methods = apswvfs_methods | native_methods

record sqlite3_vfs =
  iVersion :: int
  szOsFile :: int
  mxPathname :: int
  zName :: string
  pAppData :: "pyobj option"
  xMethods :: vfs_methods

definition VFSPREAMBLE :: "sqlite3_vfs \<Rightarrow> pystate \<Rightarrow> (pyerr option \<times> pystate) option" where
  "VFSPREAMBLE vfs s =
     (if pAppData vfs = None then None else Some (PyErr_Fetch s))"

definition VFSPOSTAMBLE :: "sqlite3_vfs \<Rightarrow> pyerr option \<Rightarrow> pystate \<Rightarrow> pystate" where
  "VFSPOSTAMBLE vfs saved s =
     PyErr_Restore saved
       (if PyErr_Occurred s then apsw_write_unraiseable (pAppData vfs) s else s)"

subsection \<open>More of the interpreter\<close>

text \<open>
  \<^verbatim>\<open>getutf8string(obj)\<close> is defined outside src/: the UTF-8 encoding of a string object as a
  bytes object, or null with an exception pending. The encoding \<open>utf8\<close> is a parameter.
\<close>

definition getutf8string ::
  "(pyobj \<Rightarrow> pyexc + byte list) \<Rightarrow> pyobj \<Rightarrow> pystate \<Rightarrow> byte list option \<times> pystate" where
  "getutf8string utf8 ob s =
     (case utf8 ob of Inl e \<Rightarrow> (None, PyErr_Format e s) | Inr b \<Rightarrow> (Some b, s))"

text \<open>\<^verbatim>\<open>PyBytes_AS_STRING\<close>: "Python always null terminates".\<close>

definition PyBytes_AS_STRING :: "byte list \<Rightarrow> byte list" where
  "PyBytes_AS_STRING b = b @ [0]"

definition size_t :: "int \<Rightarrow> int" where
  "size_t n = n mod 2 ^ 64"

text \<open>
  \<^verbatim>\<open>PyLong_AsVoidPtr\<close>: the integer as a pointer (an unsigned 64-bit value); null with an
  exception pending when it does not fit.
\<close>

definition PyLong_AsVoidPtr :: "pyobj \<Rightarrow> pystate \<Rightarrow> int \<times> pystate" where
  "PyLong_AsVoidPtr ob s =
     (case ob of
        PyInt i \<Rightarrow>
          if LONG_MIN \<le> i \<and> i < 2 ^ 64 then (size_t i, s)
          else (0, PyErr_Format (PyExc_OverflowError ''Python int too large to convert to C long'') s)
      | _ \<Rightarrow> (0, PyErr_Format (PyExc_TypeError ''an integer is required'') s))"

text \<open>
  \<^verbatim>\<open>PyFloat_AsDouble\<close> belongs to the interpreter: the value of a \<^verbatim>\<open>float\<close>, the nearest
  double of another number (an \<^verbatim>\<open>OverflowError\<close> for an integer too large for a double),
  what the method \<^verbatim>\<open>__float__\<close> of any other object gives, or a \<^verbatim>\<open>TypeError\<close>. This
  conversion, \<open>as_double\<close>, is a parameter; when it fails the function returns \<open>-1.0\<close> with
  the exception pending.
\<close>

definition PyFloat_AsDouble ::
  "(pyobj \<Rightarrow> pyexc + double) \<Rightarrow> pyobj \<Rightarrow> pystate \<Rightarrow> double \<times> pystate" where
  "PyFloat_AsDouble as_double ob s =
     (case as_double ob of
        Inl e \<Rightarrow> (Finite (-1), PyErr_Format e s)
      | Inr d \<Rightarrow> (d, s))"

text \<open>\<^verbatim>\<open>PyList_New(2)\<close> with both items set by \<^verbatim>\<open>PyInt_FromLong\<close>.\<close>

definition PyList_New2 :: "int \<Rightarrow> int \<Rightarrow> pystate \<Rightarrow> pyobj option \<times> pystate" where
  "PyList_New2 a b s =
     (if nomem s then (None, PyErr_Format PyExc_MemoryError s)
      else (Some (PyList [PyInt a, PyInt b]), s))"

subsection \<open>VFS operations called by the engine\<close>

definition apswvfs_xDelete ::
  "(pyexc \<Rightarrow> int) \<Rightarrow> managed_result \<Rightarrow> sqlite3_vfs \<Rightarrow> string \<Rightarrow> int \<Rightarrow> pystate
     \<Rightarrow> (int \<times> pystate) option" where
  "apswvfs_xDelete mk m vfs name syncDir s0 =
     (case VFSPREAMBLE vfs s0 of
        None \<Rightarrow> None
      | Some (saved, s1) \<Rightarrow>
          (case Call_PythonMethodV m s1 of
             (pyresult, s2) \<Rightarrow>
               let (result, s3) =
                     (case pyresult of
                        None \<Rightarrow> (MakeSqliteMsgFromPyException mk s2,
                                 AddTraceBackHere ''vfs.xDelete'' s2)
                      | Some r \<Rightarrow> (SQLITE_OK, s2))
               in Some (result, VFSPOSTAMBLE vfs saved s3)))"

text \<open>
  \<^verbatim>\<open>xAccess\<close> writes its answer through \<^verbatim>\<open>pResOut\<close>; the argument \<open>pResOut\<close> is what the
  engine's variable held before the call.
\<close>

definition apswvfs_xAccess ::
  "(pyexc \<Rightarrow> int) \<Rightarrow> managed_result \<Rightarrow> sqlite3_vfs \<Rightarrow> string \<Rightarrow> int \<Rightarrow> int \<Rightarrow> pystate
     \<Rightarrow> (int \<times> int \<times> pystate) option" where
  "apswvfs_xAccess mk m vfs name flags pResOut s0 =
     (case VFSPREAMBLE vfs s0 of
        None \<Rightarrow> None
      | Some (saved, s1) \<Rightarrow>
          (case Call_PythonMethodV m s1 of
             (pyresult, s2) \<Rightarrow>
               let (pResOut', s3) =
                     (case pyresult of
                        None \<Rightarrow> (pResOut, s2)
                      | Some r \<Rightarrow>
                          if PyIntLong_Check r
                          then (case PyIntLong_AsLong r s2 of (v, s) \<Rightarrow> (not_not v, s))
                          else (pResOut, PyErr_Format (PyExc_TypeError
                                  ''xAccess should return a number'') s2))
               in if PyErr_Occurred s3
                  then Some (MakeSqliteMsgFromPyException mk s3, 0,
                             VFSPOSTAMBLE vfs saved (AddTraceBackHere ''vfs.xAccess'' s3))
                  else Some (SQLITE_OK, pResOut', VFSPOSTAMBLE vfs saved s3)))"

text \<open>
  \<^verbatim>\<open>xFullPathname\<close>: \<open>nOut\<close> is the capacity the engine passes (\<^verbatim>\<open>mxPathname+1\<close>) and \<open>zOut\<close>
  the output buffer before the call.
\<close>

definition apswvfs_xFullPathname ::
  "(pyexc \<Rightarrow> int) \<Rightarrow> (pyobj \<Rightarrow> pyexc + byte list) \<Rightarrow> managed_result \<Rightarrow> sqlite3_vfs \<Rightarrow> string
     \<Rightarrow> int \<Rightarrow> byte list \<Rightarrow> pystate \<Rightarrow> (int \<times> byte list \<times> pystate) option" where
  "apswvfs_xFullPathname mk utf8 m vfs name nOut zOut s0 =
     (case VFSPREAMBLE vfs s0 of
        None \<Rightarrow> None
      | Some (saved, s1) \<Rightarrow>
          (case
             (case Call_PythonMethodV m s1 of
                (None, s2) \<Rightarrow>
                  Some (MakeSqliteMsgFromPyException mk s2, zOut,
                        AddTraceBackHere ''vfs.xFullPathname'' s2)
              | (Some pyresult, s2) \<Rightarrow>
                  (case getutf8string utf8 pyresult s2 of
                     (None, s3) \<Rightarrow>
                       Some (SQLITE_ERROR, zOut, AddTraceBackHere ''vfs.xFullPathname'' s3)
                   | (Some b, s3) \<Rightarrow>
                       if int (length b) + 1 > nOut
                       then Some (SQLITE_TOOBIG, zOut,
                              AddTraceBackHere ''vfs.xFullPathname'' (SET_EXC SQLITE_TOOBIG s3))
                       else
                         (case memcpy zOut (PyBytes_AS_STRING b) (int (length b) + 1) of
                            None \<Rightarrow> None
                          | Some zOut' \<Rightarrow> Some (SQLITE_OK, zOut', s3))))
           of
             None \<Rightarrow> None
           | Some (result, zOut', s4) \<Rightarrow> Some (result, zOut', VFSPOSTAMBLE vfs saved s4)))"

text \<open>
  \<^verbatim>\<open>xOpen\<close>: the managed method gets the list \<^verbatim>\<open>[inflags, outflags]\<close> and may change it;
  \<open>flags'\<close> is the content of that list when the method is back (it is still a list, so
  \<^verbatim>\<open>PyList_Check\<close> holds). \<open>pOutFlags\<close> is \<open>None\<close> for a null pointer. The \<^verbatim>\<open>assert\<close> before
  the postamble is part of the model.
\<close>

definition apswvfs_xOpen ::
  "(pyexc \<Rightarrow> int) \<Rightarrow> managed_result \<Rightarrow> pyobj list \<Rightarrow> sqlite3_vfs \<Rightarrow> string option
     \<Rightarrow> APSWSQLite3File \<Rightarrow> int \<Rightarrow> int option \<Rightarrow> pystate
     \<Rightarrow> (int \<times> APSWSQLite3File \<times> int option \<times> pystate) option" where
  "apswvfs_xOpen mk m flags' vfs name apswfile inflags pOutFlags s0 =
     (case VFSPREAMBLE vfs s0 of
        None \<Rightarrow> None
      | Some (saved, s1) \<Rightarrow>
          let (result, apswfile', pOutFlags', s5) =
                (case PyList_New2 inflags (case pOutFlags of None \<Rightarrow> 0 | Some v \<Rightarrow> v) s1 of
                   (None, s2) \<Rightarrow> (SQLITE_CANTOPEN, apswfile, pOutFlags, s2)
                 | (Some flags, s2) \<Rightarrow>
                     (case Call_PythonMethodV m s2 of
                        (None, s3) \<Rightarrow>
                          (MakeSqliteMsgFromPyException mk s3, apswfile, pOutFlags, s3)
                      | (Some pyresult, s3) \<Rightarrow>
                          if length flags' \<noteq> 2 \<or> \<not> PyIntLong_Check (flags' ! 1)
                          then (SQLITE_CANTOPEN, apswfile, pOutFlags,
                                AddTraceBackHere ''vfs.xOpen''
                                  (PyErr_Format (PyExc_TypeError
                                     ''Flags should be two item list with item zero being integer input and item one being integer output'') s3))
                          else
                            (case (case pOutFlags of
                                     None \<Rightarrow> (None, s3)
                                   | Some old \<Rightarrow>
                                       (case PyIntLong_AsLong (flags' ! 1) s3 of
                                          (v, s) \<Rightarrow> (Some (cast_int v), s)))
                             of (pOutFlags', s4) \<Rightarrow>
                               if PyErr_Occurred s4
                               then (SQLITE_CANTOPEN, apswfile, pOutFlags', s4)
                               else (SQLITE_OK,
                                     \<lparr>pMethods_set = True, pyfile = Some pyresult\<rparr>,
                                     pOutFlags', s4))))
          in if PyErr_Occurred s5 \<and> result = SQLITE_OK then None
             else Some (result, apswfile', pOutFlags', VFSPOSTAMBLE vfs saved s5))"

definition apswvfs_xDlOpen ::
  "managed_result \<Rightarrow> sqlite3_vfs \<Rightarrow> string \<Rightarrow> pystate \<Rightarrow> (int \<times> pystate) option" where
  "apswvfs_xDlOpen m vfs name s0 =
     (case VFSPREAMBLE vfs s0 of
        None \<Rightarrow> None
      | Some (saved, s1) \<Rightarrow>
          (case Call_PythonMethodV m s1 of
             (pyresult, s2) \<Rightarrow>
               let (result, s3) =
                     (case pyresult of
                        None \<Rightarrow> (0, s2)
                      | Some r \<Rightarrow>
                          if PyIntLong_Check r then PyLong_AsVoidPtr r s2
                          else (0, PyErr_Format (PyExc_TypeError
                                  ''Pointer returned must be int/long'') s2))
               in Some (if PyErr_Occurred s3 then 0 else result,
                        VFSPOSTAMBLE vfs saved
                          (if PyErr_Occurred s3 then AddTraceBackHere ''vfs.xDlOpen'' s3
                           else s3))))"

definition apswvfs_xDlSym ::
  "managed_result \<Rightarrow> sqlite3_vfs \<Rightarrow> int \<Rightarrow> string \<Rightarrow> pystate \<Rightarrow> (int \<times> pystate) option" where
  "apswvfs_xDlSym m vfs handle name s0 =
     (case VFSPREAMBLE vfs s0 of
        None \<Rightarrow> None
      | Some (saved, s1) \<Rightarrow>
          (case Call_PythonMethodV m s1 of
             (pyresult, s2) \<Rightarrow>
               let (result, s3) =
                     (case pyresult of
                        None \<Rightarrow> (0, s2)
                      | Some r \<Rightarrow>
                          if PyIntLong_Check r then PyLong_AsVoidPtr r s2
                          else (0, PyErr_Format (PyExc_TypeError
                                  ''Pointer returned must be int/long'') s2))
               in Some (if PyErr_Occurred s3 then 0 else result,
                        VFSPOSTAMBLE vfs saved
                          (if PyErr_Occurred s3 then AddTraceBackHere ''vfs.xDlSym'' s3
                           else s3))))"

definition apswvfs_xDlClose ::
  "managed_result \<Rightarrow> sqlite3_vfs \<Rightarrow> int \<Rightarrow> pystate \<Rightarrow> pystate option" where
  "apswvfs_xDlClose m vfs handle s0 =
     (case VFSPREAMBLE vfs s0 of
        None \<Rightarrow> None
      | Some (saved, s1) \<Rightarrow>
          (case Call_PythonMethodV m s1 of
             (pyresult, s2) \<Rightarrow>
               Some (VFSPOSTAMBLE vfs saved
                       (if PyErr_Occurred s2 then AddTraceBackHere ''vfs.xDlClose'' s2
                        else s2))))"

text \<open>
  \<^verbatim>\<open>xDlError\<close> and \<^verbatim>\<open>xGetLastError\<close> copy at most \<open>nByte\<close> bytes of the message into
  \<open>zErrMsg\<close>; the comparison is made in \<^verbatim>\<open>size_t\<close>.
\<close>

definition apswvfs_xDlError ::
  "(pyobj \<Rightarrow> pyexc + byte list) \<Rightarrow> managed_result \<Rightarrow> sqlite3_vfs \<Rightarrow> int \<Rightarrow> byte list \<Rightarrow> pystate
     \<Rightarrow> (byte list \<times> pystate) option" where
  "apswvfs_xDlError utf8 m vfs nByte zErrMsg s0 =
     (case VFSPREAMBLE vfs s0 of
        None \<Rightarrow> None
      | Some (saved, s1) \<Rightarrow>
          (case
             (case Call_PythonMethodV m s1 of
                (None, s2) \<Rightarrow> Some (zErrMsg, s2)
              | (Some pyresult, s2) \<Rightarrow>
                  if pyresult \<noteq> Py_None
                  then (case getutf8string utf8 pyresult s2 of
                          (None, s3) \<Rightarrow> Some (zErrMsg, s3)
                        | (Some b, s3) \<Rightarrow>
                            (case memcpy zErrMsg (PyBytes_AS_STRING b)
                                    (if int (length b) > size_t nByte then size_t nByte
                                     else int (length b)) of
                               None \<Rightarrow> None
                             | Some zErrMsg' \<Rightarrow> Some (zErrMsg', s3)))
                  else Some (zErrMsg, s2))
           of
             None \<Rightarrow> None
           | Some (zErrMsg', s4) \<Rightarrow>
               Some (zErrMsg',
                     VFSPOSTAMBLE vfs saved
                       (if PyErr_Occurred s4 then AddTraceBackHere ''vfs.xDlError'' s4
                        else s4))))"

definition apswvfs_xRandomness ::
  "managed_result \<Rightarrow> sqlite3_vfs \<Rightarrow> int \<Rightarrow> byte list \<Rightarrow> pystate
     \<Rightarrow> (int \<times> byte list \<times> pystate) option" where
  "apswvfs_xRandomness m vfs nByte zOut s0 =
     (case VFSPREAMBLE vfs s0 of
        None \<Rightarrow> None
      | Some (saved, s1) \<Rightarrow>
          (case
             (case Call_PythonMethodV m s1 of
                (None, s2) \<Rightarrow> Some (0, zOut, s2)
              | (Some pyresult, s2) \<Rightarrow>
                  if PyUnicode_Check pyresult
                  then Some (0, zOut, PyErr_Format (PyExc_TypeError
                               ''Randomness object must be data/bytes not unicode'') s2)
                  else if pyresult \<noteq> Py_None
                  then (case PyObject_AsReadBuffer pyresult s2 of
                          (None, s3) \<Rightarrow> Some (0, zOut, s3)
                        | (Some buffer, s3) \<Rightarrow>
                            (let buflen = (if int (length buffer) > nByte then nByte
                                           else int (length buffer))
                             in case memcpy zOut buffer buflen of
                                  None \<Rightarrow> None
                                | Some zOut' \<Rightarrow> Some (cast_int buflen, zOut', s3)))
                  else Some (0, zOut, s2))
           of
             None \<Rightarrow> None
           | Some (result, zOut', s4) \<Rightarrow>
               Some (result, zOut',
                     VFSPOSTAMBLE vfs saved
                       (if PyErr_Occurred s4 then AddTraceBackHere ''vfs.xRandomness'' s4
                        else s4))))"

definition apswvfs_xSleep ::
  "managed_result \<Rightarrow> sqlite3_vfs \<Rightarrow> int \<Rightarrow> pystate \<Rightarrow> (int \<times> pystate) option" where
  "apswvfs_xSleep m vfs microseconds s0 =
     (case VFSPREAMBLE vfs s0 of
        None \<Rightarrow> None
      | Some (saved, s1) \<Rightarrow>
          (case Call_PythonMethodV m s1 of
             (pyresult, s2) \<Rightarrow>
               let (result, s3) =
                     (case pyresult of
                        None \<Rightarrow> (0, s2)
                      | Some r \<Rightarrow>
                          if PyIntLong_Check r
                          then (case PyIntLong_AsLong r s2 of
                                  (actual, s) \<Rightarrow>
                                    (cast_int actual,
                                     if actual \<noteq> cast_int actual
                                     then PyErr_Format (PyExc_OverflowError
                                            ''Result is too big for integer'') s
                                     else s))
                          else (0, PyErr_Format (PyExc_TypeError
                                  ''You should return a number from sleep'') s2))
               in Some (result,
                        VFSPOSTAMBLE vfs saved
                          (if PyErr_Occurred s3 then AddTraceBackHere ''vfs.xSleep'' s3
                           else s3))))"

definition apswvfs_xCurrentTime ::
  "(pyobj \<Rightarrow> pyexc + double) \<Rightarrow> managed_result \<Rightarrow> sqlite3_vfs \<Rightarrow> double \<Rightarrow> pystate
     \<Rightarrow> (int \<times> double \<times> pystate) option" where
  "apswvfs_xCurrentTime as_double m vfs julian s0 =
     (case VFSPREAMBLE vfs s0 of
        None \<Rightarrow> None
      | Some (saved, s1) \<Rightarrow>
          (case Call_PythonMethodV m s1 of
             (pyresult, s2) \<Rightarrow>
               let (julian', s3) =
                     (case pyresult of
                        None \<Rightarrow> (julian, s2)
                      | Some r \<Rightarrow> PyFloat_AsDouble as_double r s2)
               in Some (if PyErr_Occurred s3 then 1 else 0, julian',
                        VFSPOSTAMBLE vfs saved
                          (if PyErr_Occurred s3 then AddTraceBackHere ''vfs.xCurrentTime'' s3
                           else s3))))"

definition apswvfs_xGetLastError ::
  "(pyobj \<Rightarrow> pyexc + byte list) \<Rightarrow> managed_result \<Rightarrow> sqlite3_vfs \<Rightarrow> int \<Rightarrow> byte list \<Rightarrow> pystate
     \<Rightarrow> (int \<times> byte list \<times> pystate) option" where
  "apswvfs_xGetLastError utf8 m vfs nByte zErrMsg s0 =
     (case VFSPREAMBLE vfs s0 of
        None \<Rightarrow> None
      | Some (saved, s1) \<Rightarrow>
          (case
             (case Call_PythonMethodV m s1 of
                (None, s2) \<Rightarrow> Some (0, zErrMsg, s2)
              | (Some pyresult, s2) \<Rightarrow>
                  if pyresult \<noteq> Py_None
                  then (case getutf8string utf8 pyresult s2 of
                          (None, s3) \<Rightarrow> Some (0, zErrMsg, s3)
                        | (Some b, s3) \<Rightarrow>
                            (let toosmall = (int (length b) > size_t nByte)
                             in case memcpy zErrMsg (PyBytes_AS_STRING b)
                                       (if toosmall then size_t nByte else int (length b)) of
                                  None \<Rightarrow> None
                                | Some zErrMsg' \<Rightarrow>
                                    Some (if toosmall then 1 else 0, zErrMsg', s3)))
                  else Some (0, zErrMsg, s2))
           of
             None \<Rightarrow> None
           | Some (buffertoosmall, zErrMsg', s4) \<Rightarrow>
               Some (buffertoosmall, zErrMsg',
                     VFSPOSTAMBLE vfs saved
                       (if PyErr_Occurred s4 then AddTraceBackHere ''vfs.xGetLastError'' s4
                        else s4))))"

subsection \<open>File operations called by the engine\<close>

definition apswvfsfile_xRead ::
  "(pyexc \<Rightarrow> int) \<Rightarrow> managed_result \<Rightarrow> APSWSQLite3File \<Rightarrow> byte list \<Rightarrow> int \<Rightarrow> int \<Rightarrow> pystate
     \<Rightarrow> (int \<times> byte list \<times> pystate) option" where
  "apswvfsfile_xRead mk m apswfile bufout amount offset s0 =
     (case FILEPREAMBLE apswfile s0 of
        None \<Rightarrow> None
      | Some (saved, s1) \<Rightarrow>
          (case
             (case Call_PythonMethodV m s1 of
                (None, s2) \<Rightarrow> Some (MakeSqliteMsgFromPyException mk s2, bufout, s2)
              | (Some pybuf, s2) \<Rightarrow>
                  if PyUnicode_Check pybuf \<or> \<not> PyObject_CheckReadBuffer pybuf
                  then Some (SQLITE_ERROR, bufout,
                         PyErr_Format (PyExc_TypeError
                           ''Object returned from xRead should be bytes/buffer/string'') s2)
                  else
                    (case PyObject_AsReadBuffer pybuf s2 of
                       (None, s3) \<Rightarrow>
                         Some (SQLITE_ERROR, bufout,
                           PyErr_Format (PyExc_TypeError
                             ''Object returned from xRead doesn't do read buffer'') s3)
                     | (Some buffer, s3) \<Rightarrow>
                         if int (length buffer) < amount
                         then
                           (case memset bufout 0 amount of
                              None \<Rightarrow> None
                            | Some zeroed \<Rightarrow>
                                (case memcpy zeroed buffer (int (length buffer)) of
                                   None \<Rightarrow> None
                                 | Some filled \<Rightarrow> Some (SQLITE_IOERR_SHORT_READ, filled, s3)))
                         else
                           (case memcpy bufout buffer amount of
                              None \<Rightarrow> None
                            | Some filled \<Rightarrow> Some (SQLITE_OK, filled, s3))))
           of
             None \<Rightarrow> None
           | Some (result, bufout', s4) \<Rightarrow>
               Some (result, bufout',
                 FILEPOSTAMBLE apswfile saved
                   (if PyErr_Occurred s4 then AddTraceBackHere ''apswvfsfile_xRead'' s4 else s4))))"

text \<open>
  \<^verbatim>\<open>PyBytes_FromStringAndSize(v, len)\<close> copies \<open>len\<close> bytes of \<open>v\<close> into a new bytes object.
  It fails with a pending exception for a negative length and when memory is exhausted
  (the field \<open>nomem\<close> of the state). Reading more than \<open>v\<close> holds is undefined.
\<close>

definition PyBytes_FromStringAndSize ::
  "byte list \<Rightarrow> int \<Rightarrow> pystate \<Rightarrow> (pyobj option \<times> pystate) option" where
  "PyBytes_FromStringAndSize v len s =
     (if len < 0
      then Some (None, PyErr_Format (PyExc_SystemError
                   ''Negative size passed to PyBytes_FromStringAndSize'') s)
      else if nomem s then Some (None, PyErr_Format PyExc_MemoryError s)
      else if length v < nat len then None
      else Some (Some (PyBytes (take (nat len) v)), s))"

definition apswvfsfile_xWrite ::
  "(pyexc \<Rightarrow> int) \<Rightarrow> managed_result \<Rightarrow> APSWSQLite3File \<Rightarrow> byte list \<Rightarrow> int \<Rightarrow> int \<Rightarrow> pystate
     \<Rightarrow> (int \<times> pystate) option" where
  "apswvfsfile_xWrite mk m apswfile buffer amount offset s0 =
     (case FILEPREAMBLE apswfile s0 of
        None \<Rightarrow> None
      | Some (saved, s1) \<Rightarrow>
          (case PyBytes_FromStringAndSize buffer amount s1 of
             None \<Rightarrow> None
           | Some (pybuf, s2) \<Rightarrow>
               let s3 = (case pybuf of
                           None \<Rightarrow> s2
                         | Some b \<Rightarrow> snd (Call_PythonMethodV m s2));
                   result = (if PyErr_Occurred s3 then MakeSqliteMsgFromPyException mk s3
                             else SQLITE_OK);
                   s4 = (if PyErr_Occurred s3 then AddTraceBackHere ''apswvfsfile_xWrite'' s3
                         else s3)
               in Some (result, FILEPOSTAMBLE apswfile saved s4)))"

definition apswvfsfile_xUnlock ::
  "(pyexc \<Rightarrow> int) \<Rightarrow> managed_result \<Rightarrow> APSWSQLite3File \<Rightarrow> int \<Rightarrow> pystate
     \<Rightarrow> (int \<times> pystate) option" where
  "apswvfsfile_xUnlock mk m apswfile flag s0 =
     (case FILEPREAMBLE apswfile s0 of
        None \<Rightarrow> None
      | Some (saved, s1) \<Rightarrow>
          (case Call_PythonMethodV m s1 of
             (pyresult, s2) \<Rightarrow>
               let result = (case pyresult of
                               None \<Rightarrow> MakeSqliteMsgFromPyException mk s2
                             | Some r \<Rightarrow> SQLITE_OK);
                   s3 = (if PyErr_Occurred s2 then AddTraceBackHere ''apswvfsfile.xUnlock'' s2
                         else s2)
               in Some (result, FILEPOSTAMBLE apswfile saved s3)))"

text \<open>"a busy exception is normal so we clear it"\<close>

definition apswvfsfile_xLock ::
  "(pyexc \<Rightarrow> int) \<Rightarrow> managed_result \<Rightarrow> APSWSQLite3File \<Rightarrow> int \<Rightarrow> pystate
     \<Rightarrow> (int \<times> pystate) option" where
  "apswvfsfile_xLock mk m apswfile flag s0 =
     (case FILEPREAMBLE apswfile s0 of
        None \<Rightarrow> None
      | Some (saved, s1) \<Rightarrow>
          (case Call_PythonMethodV m s1 of
             (pyresult, s2) \<Rightarrow>
               let (result, s3) =
                     (case pyresult of
                        None \<Rightarrow>
                          (let result = MakeSqliteMsgFromPyException mk s2
                           in (result,
                               if SQLITE_BUSY = result AND 255 then PyErr_Clear s2 else s2))
                      | Some r \<Rightarrow> (SQLITE_OK, s2));
                   s4 = (if PyErr_Occurred s3 then AddTraceBackHere ''apswvfsfile.xLock'' s3
                         else s3)
               in Some (result, FILEPOSTAMBLE apswfile saved s4)))"

definition apswvfsfile_xTruncate ::
  "(pyexc \<Rightarrow> int) \<Rightarrow> managed_result \<Rightarrow> APSWSQLite3File \<Rightarrow> int \<Rightarrow> pystate
     \<Rightarrow> (int \<times> pystate) option" where
  "apswvfsfile_xTruncate mk m apswfile newsize s0 =
     (case FILEPREAMBLE apswfile s0 of
        None \<Rightarrow> None
      | Some (saved, s1) \<Rightarrow>
          (case Call_PythonMethodV m s1 of
             (pyresult, s2) \<Rightarrow>
               let result = (case pyresult of
                               None \<Rightarrow> MakeSqliteMsgFromPyException mk s2
                             | Some r \<Rightarrow> SQLITE_OK);
                   s3 = (if PyErr_Occurred s2 then AddTraceBackHere ''apswvfsfile.xTruncate'' s2
                         else s2)
               in Some (result, FILEPOSTAMBLE apswfile saved s3)))"

definition apswvfsfile_xSync ::
  "(pyexc \<Rightarrow> int) \<Rightarrow> managed_result \<Rightarrow> APSWSQLite3File \<Rightarrow> int \<Rightarrow> pystate
     \<Rightarrow> (int \<times> pystate) option" where
  "apswvfsfile_xSync mk m apswfile flags s0 =
     (case FILEPREAMBLE apswfile s0 of
        None \<Rightarrow> None
      | Some (saved, s1) \<Rightarrow>
          (case Call_PythonMethodV m s1 of
             (pyresult, s2) \<Rightarrow>
               let result = (case pyresult of
                               None \<Rightarrow> MakeSqliteMsgFromPyException mk s2
                             | Some r \<Rightarrow> SQLITE_OK);
                   s3 = (if PyErr_Occurred s2 then AddTraceBackHere ''apswvfsfile.xSync'' s2
                         else s2)
               in Some (result, FILEPOSTAMBLE apswfile saved s3)))"

text \<open>
  \<^verbatim>\<open>xSectorSize\<close> and \<^verbatim>\<open>xDeviceCharacteristics\<close> cannot report an error: on any exception the
  result is the default, 512 or 0. The assignment of the \<^verbatim>\<open>long\<close> to \<^verbatim>\<open>int result\<close> keeps the
  low 32 bits.
\<close>

definition apswvfsfile_xSectorSize ::
  "(pyexc \<Rightarrow> int) \<Rightarrow> managed_result \<Rightarrow> APSWSQLite3File \<Rightarrow> pystate \<Rightarrow> (int \<times> pystate) option" where
  "apswvfsfile_xSectorSize mk m apswfile s0 =
     (case FILEPREAMBLE apswfile s0 of
        None \<Rightarrow> None
      | Some (saved, s1) \<Rightarrow>
          (case Call_PythonMethodV m s1 of
             (pyresult, s2) \<Rightarrow>
               let (result, s3) =
                     (case pyresult of
                        None \<Rightarrow> (MakeSqliteMsgFromPyException mk s2, s2)
                      | Some r \<Rightarrow>
                          if r \<noteq> Py_None
                          then (if PyIntLong_Check r
                                then (case PyIntLong_AsLong r s2 of (v, s) \<Rightarrow> (cast_int v, s))
                                else (512, PyErr_Format (PyExc_TypeError
                                        ''xSectorSize should return a number'') s2))
                          else (512, s2))
               in Some (if PyErr_Occurred s3 then 512 else result,
                        FILEPOSTAMBLE apswfile saved
                          (if PyErr_Occurred s3
                           then AddTraceBackHere ''apswvfsfile_xSectorSize'' s3 else s3))))"

definition apswvfsfile_xDeviceCharacteristics ::
  "(pyexc \<Rightarrow> int) \<Rightarrow> managed_result \<Rightarrow> APSWSQLite3File \<Rightarrow> pystate \<Rightarrow> (int \<times> pystate) option" where
  "apswvfsfile_xDeviceCharacteristics mk m apswfile s0 =
     (case FILEPREAMBLE apswfile s0 of
        None \<Rightarrow> None
      | Some (saved, s1) \<Rightarrow>
          (case Call_PythonMethodV m s1 of
             (pyresult, s2) \<Rightarrow>
               let (result, s3) =
                     (case pyresult of
                        None \<Rightarrow> (MakeSqliteMsgFromPyException mk s2, s2)
                      | Some r \<Rightarrow>
                          if r \<noteq> Py_None
                          then (if PyIntLong_Check r
                                then (case PyIntLong_AsLong r s2 of (v, s) \<Rightarrow> (cast_int v, s))
                                else (0, PyErr_Format (PyExc_TypeError
                                        ''xDeviceCharacteristics should return a number'') s2))
                          else (0, s2))
               in Some (if PyErr_Occurred s3 then 0 else result,
                        FILEPOSTAMBLE apswfile saved
                          (if PyErr_Occurred s3
                           then AddTraceBackHere ''apswvfsfile_xDeviceCharacteristics'' s3
                           else s3))))"

text \<open>
  \<^verbatim>\<open>xFileSize\<close> writes the size through \<^verbatim>\<open>pSize\<close>. Every integer object is a \<^verbatim>\<open>long\<close> for
  \<^verbatim>\<open>PyLong_Check\<close> here, so the branch of \<^verbatim>\<open>PyIntLong_Check\<close> after it is never taken;
  \<^verbatim>\<open>PyLong_AsLongLong\<close> has the range of \<^verbatim>\<open>PyIntLong_AsLong\<close>.
\<close>

definition PyLong_Check :: "pyobj \<Rightarrow> bool" where
  "PyLong_Check ob = PyIntLong_Check ob"

definition PyLong_AsLongLong :: "pyobj \<Rightarrow> pystate \<Rightarrow> int \<times> pystate" where
  "PyLong_AsLongLong ob s = PyIntLong_AsLong ob s"

definition apswvfsfile_xFileSize ::
  "(pyexc \<Rightarrow> int) \<Rightarrow> managed_result \<Rightarrow> APSWSQLite3File \<Rightarrow> int \<Rightarrow> pystate
     \<Rightarrow> (int \<times> int \<times> pystate) option" where
  "apswvfsfile_xFileSize mk m apswfile pSize s0 =
     (case FILEPREAMBLE apswfile s0 of
        None \<Rightarrow> None
      | Some (saved, s1) \<Rightarrow>
          (case Call_PythonMethodV m s1 of
             (pyresult, s2) \<Rightarrow>
               let (result, pSize', s3) =
                     (case pyresult of
                        None \<Rightarrow> (MakeSqliteMsgFromPyException mk s2, pSize, s2)
                      | Some r \<Rightarrow>
                          if PyLong_Check r
                          then (case PyLong_AsLongLong r s2 of (v, s) \<Rightarrow> (SQLITE_OK, v, s))
                          else if PyIntLong_Check r
                          then (case PyIntLong_AsLong r s2 of (v, s) \<Rightarrow> (SQLITE_OK, v, s))
                          else (SQLITE_OK, pSize, PyErr_Format (PyExc_TypeError
                                  ''xFileSize should return a number'') s2))
               in Some (if PyErr_Occurred s3 then MakeSqliteMsgFromPyException mk s3 else result,
                        pSize',
                        FILEPOSTAMBLE apswfile saved
                          (if PyErr_Occurred s3
                           then AddTraceBackHere ''apswvfsfile_xFileSize'' s3 else s3))))"

definition apswvfsfile_xCheckReservedLock ::
  "(pyexc \<Rightarrow> int) \<Rightarrow> managed_result \<Rightarrow> APSWSQLite3File \<Rightarrow> int \<Rightarrow> pystate
     \<Rightarrow> (int \<times> int \<times> pystate) option" where
  "apswvfsfile_xCheckReservedLock mk m apswfile pResOut s0 =
     (case FILEPREAMBLE apswfile s0 of
        None \<Rightarrow> None
      | Some (saved, s1) \<Rightarrow>
          (case Call_PythonMethodV m s1 of
             (pyresult, s2) \<Rightarrow>
               let (result, pResOut', s3) =
                     (case pyresult of
                        None \<Rightarrow> (MakeSqliteMsgFromPyException mk s2, pResOut, s2)
                      | Some r \<Rightarrow>
                          if PyIntLong_Check r
                          then (case PyIntLong_AsLong r s2 of
                                  (v, s) \<Rightarrow> (SQLITE_OK, not_not v, s))
                          else (SQLITE_OK, pResOut, PyErr_Format (PyExc_TypeError
                                  ''xCheckReservedLock should return a boolean/number'') s2))
               in Some (if PyErr_Occurred s3 then MakeSqliteMsgFromPyException mk s3 else result,
                        pResOut',
                        FILEPOSTAMBLE apswfile saved
                          (if PyErr_Occurred s3
                           then AddTraceBackHere ''apswvfsfile_xCheckReservedLock'' s3
                           else s3))))"

definition apswvfsfile_xFileControl ::
  "(pyexc \<Rightarrow> int) \<Rightarrow> managed_result \<Rightarrow> APSWSQLite3File \<Rightarrow> int \<Rightarrow> int \<Rightarrow> pystate
     \<Rightarrow> (int \<times> pystate) option" where
  "apswvfsfile_xFileControl mk m apswfile op pArg s0 =
     (case FILEPREAMBLE apswfile s0 of
        None \<Rightarrow> None
      | Some (saved, s1) \<Rightarrow>
          (case Call_PythonMethodV m s1 of
             (pyresult, s2) \<Rightarrow>
               let result = (case pyresult of
                               None \<Rightarrow> MakeSqliteMsgFromPyException mk s2
                             | Some r \<Rightarrow> SQLITE_OK)
               in Some (result, FILEPOSTAMBLE apswfile saved s2)))"

text \<open>
  \<^verbatim>\<open>xClose\<close> drops the managed file object whatever the managed method did; the postamble
  then finds \<^verbatim>\<open>apswfile->file\<close> null.
\<close>

definition apswvfsfile_xClose ::
  "(pyexc \<Rightarrow> int) \<Rightarrow> managed_result \<Rightarrow> APSWSQLite3File \<Rightarrow> pystate
     \<Rightarrow> (int \<times> APSWSQLite3File \<times> pystate) option" where
  "apswvfsfile_xClose mk m apswfile s0 =
     (case FILEPREAMBLE apswfile s0 of
        None \<Rightarrow> None
      | Some (saved, s1) \<Rightarrow>
          (case Call_PythonMethodV m s1 of
             (pyresult, s2) \<Rightarrow>
               let result = (case pyresult of
                               None \<Rightarrow> MakeSqliteMsgFromPyException mk s2
                             | Some r \<Rightarrow> SQLITE_OK);
                   s3 = (if PyErr_Occurred s2 then AddTraceBackHere ''apswvfsfile.xClose'' s2
                         else s2);
                   apswfile' = apswfile\<lparr>pyfile := None\<rparr>
               in Some (result, apswfile', FILEPOSTAMBLE apswfile' saved s3)))"

subsection \<open>The two tables of entry points\<close>

text \<open>
  The engine reaches the bridge only through the twelve members that \<^verbatim>\<open>APSWVFS_init\<close> stores
  in the \<^verbatim>\<open>sqlite3_vfs\<close> and the twelve members of \<^verbatim>\<open>apsw_io_methods\<close>. A \<open>native_call\<close> is
  one such call with its arguments; \<open>native_call_exit\<close> runs it and gives the interpreter
  state in which it returns.
\<close>

datatype native_call =
    vfs_xDelete string int
  | vfs_xAccess string int int
  | vfs_xFullPathname string int "byte list"
  | vfs_xOpen "pyobj list" "string option" APSWSQLite3File int "int option"
  | vfs_xDlOpen string
  | vfs_xDlSym int string
  | vfs_xDlClose int
  | vfs_xDlError int "byte list"
  | vfs_xRandomness int "byte list"
  | vfs_xSleep int
  | vfs_xCurrentTime double
  | vfs_xGetLastError int "byte list"
  | file_xClose
  | file_xRead "byte list" int int
  | file_xWrite "byte list" int int
  | file_xTruncate int
  | file_xSync int
  | file_xFileSize int
  | file_xLock int
  | file_xUnlock int
  | file_xCheckReservedLock int
  | file_xFileControl int int
  | file_xSectorSize
  | file_xDeviceCharacteristics

definition native_call_exit ::
  "(pyexc \<Rightarrow> int) \<Rightarrow> (pyobj \<Rightarrow> pyexc + byte list) \<Rightarrow> (pyobj \<Rightarrow> pyexc + double)
     \<Rightarrow> managed_result \<Rightarrow> sqlite3_vfs \<Rightarrow> APSWSQLite3File \<Rightarrow> native_call \<Rightarrow> pystate
     \<Rightarrow> pystate option" where
  "native_call_exit mk utf8 as_double m vfs apswfile c s =
     (case c of
        vfs_xDelete name syncDir \<Rightarrow> map_option snd (apswvfs_xDelete mk m vfs name syncDir s)
      | vfs_xAccess name flags pResOut \<Rightarrow>
          map_option (snd \<circ> snd) (apswvfs_xAccess mk m vfs name flags pResOut s)
      | vfs_xFullPathname name nOut zOut \<Rightarrow>
          map_option (snd \<circ> snd) (apswvfs_xFullPathname mk utf8 m vfs name nOut zOut s)
      | vfs_xOpen flags' name newfile inflags pOutFlags \<Rightarrow>
          map_option (snd \<circ> snd \<circ> snd)
            (apswvfs_xOpen mk m flags' vfs name newfile inflags pOutFlags s)
      | vfs_xDlOpen name \<Rightarrow> map_option snd (apswvfs_xDlOpen m vfs name s)
      | vfs_xDlSym handle name \<Rightarrow> map_option snd (apswvfs_xDlSym m vfs handle name s)
      | vfs_xDlClose handle \<Rightarrow> apswvfs_xDlClose m vfs handle s
      | vfs_xDlError nByte zErrMsg \<Rightarrow>
          map_option snd (apswvfs_xDlError utf8 m vfs nByte zErrMsg s)
      | vfs_xRandomness nByte zOut \<Rightarrow>
          map_option (snd \<circ> snd) (apswvfs_xRandomness m vfs nByte zOut s)
      | vfs_xSleep microseconds \<Rightarrow> map_option snd (apswvfs_xSleep m vfs microseconds s)
      | vfs_xCurrentTime julian \<Rightarrow>
          map_option (snd \<circ> snd) (apswvfs_xCurrentTime as_double m vfs julian s)
      | vfs_xGetLastError nByte zErrMsg \<Rightarrow>
          map_option (snd \<circ> snd) (apswvfs_xGetLastError utf8 m vfs nByte zErrMsg s)
      | file_xClose \<Rightarrow> map_option (snd \<circ> snd) (apswvfsfile_xClose mk m apswfile s)
      | file_xRead bufout amount offset \<Rightarrow>
          map_option (snd \<circ> snd) (apswvfsfile_xRead mk m apswfile bufout amount offset s)
      | file_xWrite buffer amount offset \<Rightarrow>
          map_option snd (apswvfsfile_xWrite mk m apswfile buffer amount offset s)
      | file_xTruncate newsize \<Rightarrow> map_option snd (apswvfsfile_xTruncate mk m apswfile newsize s)
      | file_xSync flags \<Rightarrow> map_option snd (apswvfsfile_xSync mk m apswfile flags s)
      | file_xFileSize pSize \<Rightarrow>
          map_option (snd \<circ> snd) (apswvfsfile_xFileSize mk m apswfile pSize s)
      | file_xLock flag \<Rightarrow> map_option snd (apswvfsfile_xLock mk m apswfile flag s)
      | file_xUnlock flag \<Rightarrow> map_option snd (apswvfsfile_xUnlock mk m apswfile flag s)
      | file_xCheckReservedLock pResOut \<Rightarrow>
          map_option (snd \<circ> snd) (apswvfsfile_xCheckReservedLock mk m apswfile pResOut s)
      | file_xFileControl op pArg \<Rightarrow>
          map_option snd (apswvfsfile_xFileControl mk m apswfile op pArg s)
      | file_xSectorSize \<Rightarrow> map_option snd (apswvfsfile_xSectorSize mk m apswfile s)
      | file_xDeviceCharacteristics \<Rightarrow>
          map_option snd (apswvfsfile_xDeviceCharacteristics mk m apswfile s))"

text \<open>
  Two entry points build an argument before they call the managed method and skip the call
  when that fails: \<^verbatim>\<open>xWrite\<close> (the bytes object) and \<^verbatim>\<open>xOpen\<close> (the list of flags).
\<close>

definition managed_called :: "native_call \<Rightarrow> pystate \<Rightarrow> bool" where
  "managed_called c s =
     (case c of
        file_xWrite buffer amount offset \<Rightarrow> 0 \<le> amount \<and> \<not> nomem s
      | vfs_xOpen flags' name newfile inflags pOutFlags \<Rightarrow> \<not> nomem s
      | _ \<Rightarrow> True)"

text \<open>
  The object whose \<^verbatim>\<open>excepthook\<close> the postamble asks for: \<^verbatim>\<open>vfs->pAppData\<close>, or
  \<^verbatim>\<open>apswfile->file\<close>, which \<^verbatim>\<open>xClose\<close> has set to null by then.
\<close>

definition sink_hook :: "sqlite3_vfs \<Rightarrow> APSWSQLite3File \<Rightarrow> native_call \<Rightarrow> pyobj option" where
  "sink_hook vfs apswfile c =
     (case c of
        file_xClose \<Rightarrow> None
      | file_xRead bufout amount offset \<Rightarrow> pyfile apswfile
      | file_xWrite buffer amount offset \<Rightarrow> pyfile apswfile
      | file_xTruncate newsize \<Rightarrow> pyfile apswfile
      | file_xSync flags \<Rightarrow> pyfile apswfile
      | file_xFileSize pSize \<Rightarrow> pyfile apswfile
      | file_xLock flag \<Rightarrow> pyfile apswfile
      | file_xUnlock flag \<Rightarrow> pyfile apswfile
      | file_xCheckReservedLock pResOut \<Rightarrow> pyfile apswfile
      | file_xFileControl op pArg \<Rightarrow> pyfile apswfile
      | file_xSectorSize \<Rightarrow> pyfile apswfile
      | file_xDeviceCharacteristics \<Rightarrow> pyfile apswfile
      | _ \<Rightarrow> pAppData vfs)"

definition is_xLock :: "native_call \<Rightarrow> bool" where
  "is_xLock c = (case c of file_xLock flag \<Rightarrow> True | _ \<Rightarrow> False)"

subsection \<open>File methods called from Python\<close>

text \<open>
  A \<^verbatim>\<open>VFSFile\<close> object forwards each method to the native file it inherits from,
  \<^verbatim>\<open>self->base\<close>. The members of the \<^verbatim>\<open>sqlite3_io_methods\<close> of that file are functions of any
  native implementation: they act on the state \<open>'w\<close> of that implementation and on the
  interpreter (the implementation may be this bridge again), return \<open>None\<close> when they
  crash, and a member may be null. \<^verbatim>\<open>xRead\<close> gets the content of the buffer and returns what
  it holds afterwards; \<^verbatim>\<open>xFileSize\<close> and \<^verbatim>\<open>xCheckReservedLock\<close> return, after the result
  code, the value of the variable behind their out-parameter after the call.
\<close>

record 'w sqlite3_io_methods =
  xClose :: "('w \<Rightarrow> pystate \<Rightarrow> (int \<times> 'w \<times> pystate) option) option"
  xRead :: "(byte list \<Rightarrow> int \<Rightarrow> int \<Rightarrow> 'w \<Rightarrow> pystate
               \<Rightarrow> (int \<times> byte list \<times> 'w \<times> pystate) option) option"
  xWrite :: "(byte list \<Rightarrow> int \<Rightarrow> int \<Rightarrow> 'w \<Rightarrow> pystate \<Rightarrow> (int \<times> 'w \<times> pystate) option) option"
  xTruncate :: "(int \<Rightarrow> 'w \<Rightarrow> pystate \<Rightarrow> (int \<times> 'w \<times> pystate) option) option"
  xSync :: "(int \<Rightarrow> 'w \<Rightarrow> pystate \<Rightarrow> (int \<times> 'w \<times> pystate) option) option"
  xFileSize :: "('w \<Rightarrow> pystate \<Rightarrow> (int \<times> int \<times> 'w \<times> pystate) option) option"
  xLock :: "(int \<Rightarrow> 'w \<Rightarrow> pystate \<Rightarrow> (int \<times> 'w \<times> pystate) option) option"
  xUnlock :: "(int \<Rightarrow> 'w \<Rightarrow> pystate \<Rightarrow> (int \<times> 'w \<times> pystate) option) option"
  xCheckReservedLock :: "('w \<Rightarrow> pystate \<Rightarrow> (int \<times> int \<times> 'w \<times> pystate) option) option"
  xFileControl :: "(int \<Rightarrow> int \<Rightarrow> 'w \<Rightarrow> pystate \<Rightarrow> (int \<times> 'w \<times> pystate) option) option"
  xSectorSize :: "('w \<Rightarrow> pystate \<Rightarrow> (int \<times> 'w \<times> pystate) option) option"
  xDeviceCharacteristics :: "('w \<Rightarrow> pystate \<Rightarrow> (int \<times> 'w \<times> pystate) option) option"

record 'w sqlite3_file =
  pMethods :: "'w sqlite3_io_methods option"

text \<open>\<^verbatim>\<open>APSWVFSFile\<close>: \<open>base\<close> is \<open>None\<close> for the null pointer, that is for a closed file.\<close>

record 'w APSWVFSFile =
  base :: "'w sqlite3_file option"

text \<open>
  What the file methods act on: the state of the native implementation, the interpreter,
  the bytes that newly allocated memory happens to hold, and a log of what was done with
  the native file, in order: a call of one of its members, the assignment
  \<^verbatim>\<open>pMethods=NULL\<close>, and \<^verbatim>\<open>PyMem_Free\<close> of its memory.
\<close>

datatype event = NativeCall string | MethodsNulled | Freed

record 'w pyside =
  world :: 'w
  interp :: pystate
  junk :: "byte list"
  events :: "event list"

type_synonym 'w pyresult = "(pyobj option \<times> 'w APSWVFSFile \<times> 'w pyside) option"

definition py_raise :: "pyexc \<Rightarrow> 'w pyside \<Rightarrow> 'w pyside" where
  "py_raise e st = st\<lparr>interp := PyErr_Format e (interp st)\<rparr>"

text \<open>The state after a member \<open>x\<close> of the native file has returned.\<close>

definition after_native :: "string \<Rightarrow> 'w \<Rightarrow> pystate \<Rightarrow> 'w pyside \<Rightarrow> 'w pyside" where
  "after_native x w py st = st\<lparr>world := w, interp := py, events := events st @ [NativeCall x]\<rparr>"

text \<open>
  The macros \<^verbatim>\<open>CHECKVFSFILEPY\<close> and \<^verbatim>\<open>VFSFILENOTIMPLEMENTED(x)\<close>; the last argument is the
  rest of the function. Reading a member through a null \<^verbatim>\<open>pMethods\<close> is undefined.
\<close>

definition CHECKVFSFILEPY :: "'w APSWVFSFile \<Rightarrow> 'w pyside \<Rightarrow> 'w pyresult \<Rightarrow> 'w pyresult" where
  "CHECKVFSFILEPY self st rest =
     (if base self = None
      then Some (None, self,
             py_raise (ExcVFSFileClosed ''VFSFileClosed: Attempting operation on closed file'') st)
      else rest)"

definition VFSFILENOTIMPLEMENTED ::
  "string \<Rightarrow> ('w sqlite3_io_methods \<Rightarrow> 'f option) \<Rightarrow> 'w APSWVFSFile \<Rightarrow> 'w pyside
     \<Rightarrow> ('f \<Rightarrow> 'w pyresult) \<Rightarrow> 'w pyresult" where
  "VFSFILENOTIMPLEMENTED x member self st rest =
     (let notimplemented =
            Some (None, self,
              py_raise (ExcVFSNotImplemented
                (''VFSNotImplementedError: File method '' @ x @ '' is not implemented'')) st)
      in case base self of
           None \<Rightarrow> notimplemented
         | Some f \<Rightarrow>
             (case pMethods f of
                None \<Rightarrow> None
              | Some io \<Rightarrow>
                  (case member io of
                     None \<Rightarrow> notimplemented
                   | Some native \<Rightarrow> rest native)))"

text \<open>
  \<^verbatim>\<open>PyArg_ParseTuple\<close> with the formats vfs.c uses: \<^verbatim>\<open>i\<close> is an integer in the range of
  \<^verbatim>\<open>int\<close>, \<^verbatim>\<open>L\<close> one in the range of \<^verbatim>\<open>long long\<close>, \<^verbatim>\<open>O\<close> any object. On failure an exception
  is pending.
\<close>

definition parse_integer :: "int \<Rightarrow> int \<Rightarrow> pyobj \<Rightarrow> pyexc + int" where
  "parse_integer lo hi ob =
     (case ob of
        PyInt i \<Rightarrow>
          if lo \<le> i \<and> i \<le> hi then Inr i
          else Inl (PyExc_OverflowError ''Python int too large to convert to C integer'')
      | _ \<Rightarrow> Inl (PyExc_TypeError ''an integer is required''))"

definition PyArg_ParseTuple_i :: "pyobj list \<Rightarrow> pystate \<Rightarrow> int option \<times> pystate" where
  "PyArg_ParseTuple_i args s =
     (case args of
        [a] \<Rightarrow>
          (case parse_integer INT_MIN INT_MAX a of
             Inl e \<Rightarrow> (None, PyErr_Format e s)
           | Inr x \<Rightarrow> (Some x, s))
      | _ \<Rightarrow> (None, PyErr_Format (PyExc_TypeError ''function takes exactly 1 argument'') s))"

definition PyArg_ParseTuple_L :: "pyobj list \<Rightarrow> pystate \<Rightarrow> int option \<times> pystate" where
  "PyArg_ParseTuple_L args s =
     (case args of
        [a] \<Rightarrow>
          (case parse_integer LONG_MIN LONG_MAX a of
             Inl e \<Rightarrow> (None, PyErr_Format e s)
           | Inr x \<Rightarrow> (Some x, s))
      | _ \<Rightarrow> (None, PyErr_Format (PyExc_TypeError ''function takes exactly 1 argument'') s))"

definition PyArg_ParseTuple_iL :: "pyobj list \<Rightarrow> pystate \<Rightarrow> (int \<times> int) option \<times> pystate" where
  "PyArg_ParseTuple_iL args s =
     (case args of
        [a, b] \<Rightarrow>
          (case parse_integer INT_MIN INT_MAX a of
             Inl e \<Rightarrow> (None, PyErr_Format e s)
           | Inr x \<Rightarrow>
               (case parse_integer LONG_MIN LONG_MAX b of
                  Inl e \<Rightarrow> (None, PyErr_Format e s)
                | Inr y \<Rightarrow> (Some (x, y), s)))
      | _ \<Rightarrow> (None, PyErr_Format (PyExc_TypeError ''function takes exactly 2 arguments'') s))"

definition PyArg_ParseTuple_OL :: "pyobj list \<Rightarrow> pystate \<Rightarrow> (pyobj \<times> int) option \<times> pystate" where
  "PyArg_ParseTuple_OL args s =
     (case args of
        [a, b] \<Rightarrow>
          (case parse_integer LONG_MIN LONG_MAX b of
             Inl e \<Rightarrow> (None, PyErr_Format e s)
           | Inr y \<Rightarrow> (Some (a, y), s))
      | _ \<Rightarrow> (None, PyErr_Format (PyExc_TypeError ''function takes exactly 2 arguments'') s))"

definition PyArg_ParseTuple_iO :: "pyobj list \<Rightarrow> pystate \<Rightarrow> (int \<times> pyobj) option \<times> pystate" where
  "PyArg_ParseTuple_iO args s =
     (case args of
        [a, b] \<Rightarrow>
          (case parse_integer INT_MIN INT_MAX a of
             Inl e \<Rightarrow> (None, PyErr_Format e s)
           | Inr x \<Rightarrow> (Some (x, b), s))
      | _ \<Rightarrow> (None, PyErr_Format (PyExc_TypeError ''function takes exactly 2 arguments'') s))"

text \<open>
  \<^verbatim>\<open>PyBytes_FromStringAndSize(NULL, len)\<close>: a bytes object of \<open>len\<close> bytes that are not
  initialised; they are the first \<open>len\<close> bytes of \<open>junk\<close> (zero where \<open>junk\<close> ends).
\<close>

definition PyBytes_FromStringAndSize_NULL ::
  "byte list \<Rightarrow> int \<Rightarrow> pystate \<Rightarrow> byte list option \<times> pystate" where
  "PyBytes_FromStringAndSize_NULL jnk len s =
     (if len < 0
      then (None, PyErr_Format (PyExc_SystemError
                    ''Negative size passed to PyBytes_FromStringAndSize'') s)
      else if nomem s then (None, PyErr_Format PyExc_MemoryError s)
      else (Some (take (nat len) (jnk @ replicate (nat len) 0)), s))"

text \<open>
  The loop \<^verbatim>\<open>while(amount && PyBytes_AS_STRING(buffy)[amount-1]==0) amount--;\<close> of
  \<^verbatim>\<open>apswvfsfilepy_xRead\<close>. It is entered with \<open>amount\<close> the size of the buffer.
\<close>

fun short_read_length :: "byte list \<Rightarrow> nat \<Rightarrow> nat" where
  "short_read_length buffy 0 = 0"
| "short_read_length buffy (Suc n) =
     (if buffy ! n = 0 then short_read_length buffy n else Suc n)"

definition apswvfsfilepy_xRead :: "'w APSWVFSFile \<Rightarrow> pyobj list \<Rightarrow> 'w pyside \<Rightarrow> 'w pyresult" where
  "apswvfsfilepy_xRead self args st =
     CHECKVFSFILEPY self st
       (VFSFILENOTIMPLEMENTED ''xRead'' xRead self st (\<lambda>native.
          case PyArg_ParseTuple_iL args (interp st) of
            (None, py1) \<Rightarrow> Some (None, self, st\<lparr>interp := py1\<rparr>)
          | (Some (amount, offset), py1) \<Rightarrow>
              (case PyBytes_FromStringAndSize_NULL (junk st) amount py1 of
                 (None, py2) \<Rightarrow> Some (None, self, st\<lparr>interp := py2\<rparr>)
               | (Some buffy, py2) \<Rightarrow>
                   (case native buffy amount offset (world st) py2 of
                      None \<Rightarrow> None
                    | Some (res, buffy', w, py3) \<Rightarrow>
                        if length buffy' \<noteq> length buffy then None
                        else
                          let st' = after_native ''xRead'' w py3 st
                          in if res = SQLITE_OK then Some (Some (PyBytes buffy'), self, st')
                             else if res = SQLITE_IOERR_SHORT_READ
                             then Some (Some (PyBytes
                                          (take (short_read_length buffy' (nat amount)) buffy')),
                                        self, st')
                             else Some (None, self, st'\<lparr>interp := SET_EXC res py3\<rparr>)))))"

definition apswvfsfilepy_xWrite :: "'w APSWVFSFile \<Rightarrow> pyobj list \<Rightarrow> 'w pyside \<Rightarrow> 'w pyresult" where
  "apswvfsfilepy_xWrite self args st =
     CHECKVFSFILEPY self st
       (VFSFILENOTIMPLEMENTED ''xWrite'' xWrite self st (\<lambda>native.
          case PyArg_ParseTuple_OL args (interp st) of
            (None, py1) \<Rightarrow> Some (None, self, st\<lparr>interp := py1\<rparr>)
          | (Some (buffy, offset), py1) \<Rightarrow>
              (case PyObject_AsReadBuffer buffy py1 of
                 (asrb, py2) \<Rightarrow>
                   (case (if PyUnicode_Check buffy then None else asrb) of
                      None \<Rightarrow>
                        Some (None, self,
                          st\<lparr>interp := AddTraceBackHere ''apswvfsfile_xWrite''
                                (PyErr_Format (PyExc_TypeError
                                   ''Object passed to xWrite doesn't do read buffer'') py2)\<rparr>)
                    | Some buffer \<Rightarrow>
                        (case native buffer (cast_int (int (length buffer))) offset (world st) py2 of
                           None \<Rightarrow> None
                         | Some (res, w, py3) \<Rightarrow>
                             let st' = after_native ''xWrite'' w py3 st
                             in if res = SQLITE_OK then Some (Some Py_None, self, st')
                                else Some (None, self, st'\<lparr>interp := SET_EXC res py3\<rparr>))))))"

definition apswvfsfilepy_xUnlock :: "'w APSWVFSFile \<Rightarrow> pyobj list \<Rightarrow> 'w pyside \<Rightarrow> 'w pyresult" where
  "apswvfsfilepy_xUnlock self args st =
     CHECKVFSFILEPY self st
       (VFSFILENOTIMPLEMENTED ''xUnlock'' xUnlock self st (\<lambda>native.
          case PyArg_ParseTuple_i args (interp st) of
            (None, py1) \<Rightarrow> Some (None, self, st\<lparr>interp := py1\<rparr>)
          | (Some flag, py1) \<Rightarrow>
              (case native flag (world st) py1 of
                 None \<Rightarrow> None
               | Some (res, w, py2) \<Rightarrow>
                   let st' = after_native ''xUnlock'' w py2 st
                   in if res = SQLITE_OK then Some (Some Py_None, self, st')
                      else Some (None, self, st'\<lparr>interp := SET_EXC res py2\<rparr>))))"

definition apswvfsfilepy_xLock :: "'w APSWVFSFile \<Rightarrow> pyobj list \<Rightarrow> 'w pyside \<Rightarrow> 'w pyresult" where
  "apswvfsfilepy_xLock self args st =
     CHECKVFSFILEPY self st
       (VFSFILENOTIMPLEMENTED ''xLock'' xLock self st (\<lambda>native.
          case PyArg_ParseTuple_i args (interp st) of
            (None, py1) \<Rightarrow> Some (None, self, st\<lparr>interp := py1\<rparr>)
          | (Some flag, py1) \<Rightarrow>
              (case native flag (world st) py1 of
                 None \<Rightarrow> None
               | Some (res, w, py2) \<Rightarrow>
                   let st' = after_native ''xLock'' w py2 st
                   in if res = SQLITE_OK then Some (Some Py_None, self, st')
                      else Some (None, self, st'\<lparr>interp := SET_EXC res py2\<rparr>))))"

definition apswvfsfilepy_xTruncate :: "'w APSWVFSFile \<Rightarrow> pyobj list \<Rightarrow> 'w pyside \<Rightarrow> 'w pyresult" where
  "apswvfsfilepy_xTruncate self args st =
     CHECKVFSFILEPY self st
       (VFSFILENOTIMPLEMENTED ''xTruncate'' xTruncate self st (\<lambda>native.
          case PyArg_ParseTuple_L args (interp st) of
            (None, py1) \<Rightarrow> Some (None, self, st\<lparr>interp := py1\<rparr>)
          | (Some newsize, py1) \<Rightarrow>
              (case native newsize (world st) py1 of
                 None \<Rightarrow> None
               | Some (res, w, py2) \<Rightarrow>
                   let st' = after_native ''xTruncate'' w py2 st
                   in if res = SQLITE_OK then Some (Some Py_None, self, st')
                      else Some (None, self, st'\<lparr>interp := SET_EXC res py2\<rparr>))))"

definition apswvfsfilepy_xSync :: "'w APSWVFSFile \<Rightarrow> pyobj list \<Rightarrow> 'w pyside \<Rightarrow> 'w pyresult" where
  "apswvfsfilepy_xSync self args st =
     CHECKVFSFILEPY self st
       (VFSFILENOTIMPLEMENTED ''xSync'' xSync self st (\<lambda>native.
          case PyArg_ParseTuple_i args (interp st) of
            (None, py1) \<Rightarrow> Some (None, self, st\<lparr>interp := py1\<rparr>)
          | (Some flags, py1) \<Rightarrow>
              (case native flags (world st) py1 of
                 None \<Rightarrow> None
               | Some (res, w, py2) \<Rightarrow>
                   let st' = after_native ''xSync'' w py2 st
                   in if res = SQLITE_OK then Some (Some Py_None, self, st')
                      else Some (None, self, st'\<lparr>interp := SET_EXC res py2\<rparr>))))"

definition apswvfsfilepy_xSectorSize :: "'w APSWVFSFile \<Rightarrow> 'w pyside \<Rightarrow> 'w pyresult" where
  "apswvfsfilepy_xSectorSize self st =
     CHECKVFSFILEPY self st
       (VFSFILENOTIMPLEMENTED ''xSectorSize'' xSectorSize self st (\<lambda>native.
          case native (world st) (interp st) of
            None \<Rightarrow> None
          | Some (res, w, py1) \<Rightarrow>
              Some (Some (PyInt res), self, after_native ''xSectorSize'' w py1 st)))"

definition apswvfsfilepy_xDeviceCharacteristics ::
  "'w APSWVFSFile \<Rightarrow> 'w pyside \<Rightarrow> 'w pyresult" where
  "apswvfsfilepy_xDeviceCharacteristics self st =
     CHECKVFSFILEPY self st
       (VFSFILENOTIMPLEMENTED ''xDeviceCharacteristics'' xDeviceCharacteristics self st (\<lambda>native.
          case native (world st) (interp st) of
            None \<Rightarrow> None
          | Some (res, w, py1) \<Rightarrow>
              Some (Some (PyInt res), self, after_native ''xDeviceCharacteristics'' w py1 st)))"

definition apswvfsfilepy_xFileSize :: "'w APSWVFSFile \<Rightarrow> 'w pyside \<Rightarrow> 'w pyresult" where
  "apswvfsfilepy_xFileSize self st =
     CHECKVFSFILEPY self st
       (VFSFILENOTIMPLEMENTED ''xFileSize'' xFileSize self st (\<lambda>native.
          case native (world st) (interp st) of
            None \<Rightarrow> None
          | Some (res, fsize, w, py1) \<Rightarrow>
              let st' = after_native ''xFileSize'' w py1 st
              in if res \<noteq> SQLITE_OK then Some (None, self, st'\<lparr>interp := SET_EXC res py1\<rparr>)
                 else Some (Some (PyInt fsize), self, st')))"

text \<open>\<^verbatim>\<open>Py_RETURN_TRUE\<close> and \<^verbatim>\<open>Py_RETURN_FALSE\<close> return the integers 1 and 0 of type \<^verbatim>\<open>bool\<close>.\<close>

definition apswvfsfilepy_xCheckReservedLock :: "'w APSWVFSFile \<Rightarrow> 'w pyside \<Rightarrow> 'w pyresult" where
  "apswvfsfilepy_xCheckReservedLock self st =
     CHECKVFSFILEPY self st
       (VFSFILENOTIMPLEMENTED ''xCheckReservedLock'' xCheckReservedLock self st (\<lambda>native.
          case native (world st) (interp st) of
            None \<Rightarrow> None
          | Some (res, islocked, w, py1) \<Rightarrow>
              let st' = after_native ''xCheckReservedLock'' w py1 st
              in if res \<noteq> SQLITE_OK then Some (None, self, st'\<lparr>interp := SET_EXC res py1\<rparr>)
                 else if islocked \<noteq> 0 then Some (Some (PyInt 1), self, st')
                 else Some (Some (PyInt 0), self, st')))"

definition apswvfsfilepy_xFileControl ::
  "'w APSWVFSFile \<Rightarrow> pyobj list \<Rightarrow> 'w pyside \<Rightarrow> 'w pyresult" where
  "apswvfsfilepy_xFileControl self args st =
     CHECKVFSFILEPY self st
       (VFSFILENOTIMPLEMENTED ''xFileControl'' xFileControl self st (\<lambda>native.
          case PyArg_ParseTuple_iO args (interp st) of
            (None, py1) \<Rightarrow> Some (None, self, st\<lparr>interp := py1\<rparr>)
          | (Some (op, pyptr), py1) \<Rightarrow>
              (case (if PyIntLong_Check pyptr then PyLong_AsVoidPtr pyptr py1
                     else (0, PyErr_Format (PyExc_TypeError
                                ''Argument is not number (pointer)'') py1)) of
                 (ptr, py2) \<Rightarrow>
                   if PyErr_Occurred py2
                   then Some (None, self, st\<lparr>interp := SET_EXC SQLITE_ERROR py2\<rparr>)
                   else
                     (case native op ptr (world st) py2 of
                        None \<Rightarrow> None
                      | Some (res, w, py3) \<Rightarrow>
                          let st' = after_native ''xFileControl'' w py3 st
                          in if res = SQLITE_OK then Some (Some Py_None, self, st')
                             else Some (None, self, st'\<lparr>interp := SET_EXC res py3\<rparr>)))))"

text \<open>
  \<^verbatim>\<open>xClose\<close>: "we set pMethods to NULL after xClose callback so xClose can call other
  operations such as read or write during close". A null \<^verbatim>\<open>pMethods\<close> or a null member
  \<^verbatim>\<open>xClose\<close> of an open file is a call through a null pointer.
\<close>

definition apswvfsfilepy_xClose :: "'w APSWVFSFile \<Rightarrow> 'w pyside \<Rightarrow> 'w pyresult" where
  "apswvfsfilepy_xClose self st =
     (case base self of
        None \<Rightarrow> Some (Some Py_None, self, st)
      | Some f \<Rightarrow>
          (case pMethods f of
             None \<Rightarrow> None
           | Some io \<Rightarrow>
               (case xClose io of
                  None \<Rightarrow> None
                | Some native \<Rightarrow>
                    (case native (world st) (interp st) of
                       None \<Rightarrow> None
                     | Some (res, w, py1) \<Rightarrow>
                         let st1 = after_native ''xClose'' w py1 st;
                             st2 = st1\<lparr>events := events st1 @ [MethodsNulled]\<rparr>;
                             st3 = st2\<lparr>events := events st2 @ [Freed]\<rparr>;
                             self' = self\<lparr>base := None\<rparr>
                         in if res = SQLITE_OK then Some (Some Py_None, self', st3)
                            else Some (None, self', st3\<lparr>interp := SET_EXC res py1\<rparr>)))))"

subsection \<open>Registering a VFS\<close>














subsection \<open>Auxiliary definitions for the properties\<close>

text \<open>
  What a native entry point leaves behind when it returns in state \<open>s'\<close>, entered in state
  \<open>s\<close>: the pending exception of the caller, and in the sink the exception the managed
  method raised, if the method was called.
\<close>

definition exit_ok :: "bool \<Rightarrow> pyobj option \<Rightarrow> managed_result \<Rightarrow> pystate \<Rightarrow> pystate \<Rightarrow> bool" where
  "exit_ok called hook m s s' \<longleftrightarrow>
     pending s' = pending s \<and>
     (case m of
        Returns r \<Rightarrow> True
      | Raises e \<Rightarrow> called \<longrightarrow> (\<exists>tb. unraisable s' = unraisable s @ [(hook, (e, tb))]))"

text \<open>The content of the read buffer of an object that has one and is no text string.\<close>

definition read_buffer_of :: "pyobj \<Rightarrow> byte list option" where
  "read_buffer_of ob = (case ob of PyBytes b \<Rightarrow> Some b | PyBuffer b \<Rightarrow> Some b | _ \<Rightarrow> None)"

text \<open>
  Concrete values for the examples: a conversion of exceptions to result codes (the code
  of an exception made by \<^verbatim>\<open>SET_EXC\<close>, \<^verbatim>\<open>SQLITE_ERROR\<close> for every other), an encoder for
  ASCII text, a conversion to doubles that takes \<^verbatim>\<open>float\<close> objects only, a VFS and a file
  made by the bridge, and an interpreter with nothing pending.
\<close>

definition example_mk :: "pyexc \<Rightarrow> int" where
  "example_mk e = (case e of APSWException res \<Rightarrow> res | _ \<Rightarrow> SQLITE_ERROR)"

definition example_utf8 :: "pyobj \<Rightarrow> pyexc + byte list" where
  "example_utf8 ob =
     (case ob of
        PyUnicode u \<Rightarrow>
          if list_all (\<lambda>c. c < 128) u then Inr (map of_nat u) else Inl (PyExc_Other 0)
      | _ \<Rightarrow> Inl (PyExc_TypeError ''not a string''))"

definition example_as_double :: "pyobj \<Rightarrow> pyexc + double" where
  "example_as_double ob =
     (case ob of PyFloat d \<Rightarrow> Inr d | _ \<Rightarrow> Inl (PyExc_TypeError ''a float is required''))"

definition example_vfs :: sqlite3_vfs where
  "example_vfs = \<lparr>iVersion = 1, szOsFile = 16, mxPathname = 1024, zName = ''myvfs'',
                   pAppData = Some (PyOpaque 0), xMethods = apswvfs_methods\<rparr>"

definition example_file :: APSWSQLite3File where
  "example_file = \<lparr>pMethods_set = True, pyfile = Some (PyOpaque 1)\<rparr>"

definition idle :: pystate where
  "idle = \<lparr>pending = None, unraisable = [], nomem = False\<rparr>"







text \<open>
  A native file whose \<^verbatim>\<open>xClose\<close> is \<open>apswvfsfile_xClose\<close> over a managed \<^verbatim>\<open>xClose\<close> that
  returns \<^verbatim>\<open>None\<close>, and one whose \<^verbatim>\<open>xClose\<close> reports \<^verbatim>\<open>SQLITE_IOERR\<close>.
\<close>

definition closing_io_methods :: "APSWSQLite3File sqlite3_io_methods" where
  "closing_io_methods =
     \<lparr>xClose = Some (\<lambda>apswfile py.
        apswvfsfile_xClose example_mk (Returns Py_None) apswfile py),
      xRead = None, xWrite = None,
      xTruncate = None, xSync = None, xFileSize = None, xLock = None, xUnlock = None,
      xCheckReservedLock = None, xFileControl = None, xSectorSize = None,
      xDeviceCharacteristics = None\<rparr>"

definition failing_io_methods :: "unit sqlite3_io_methods" where
  "failing_io_methods =
     \<lparr>xClose = Some (\<lambda>w py. Some (SQLITE_IOERR, w, py)),
      xRead = None, xWrite = None,
      xTruncate = None, xSync = None, xFileSize = None, xLock = None, xUnlock = None,
      xCheckReservedLock = None, xFileControl = None, xSectorSize = None,
      xDeviceCharacteristics = None\<rparr>"


section \<open>Properties\<close>

subsection \<open>The preamble and the postamble\<close>

lemma FILEPOSTAMBLE_pending [simp]: "pending (FILEPOSTAMBLE apswfile saved s) = saved"
  by (simp add: FILEPOSTAMBLE_def PyErr_Restore_def)

lemma FILEPOSTAMBLE_clean:
  "pending s = None \<Longrightarrow> FILEPOSTAMBLE apswfile saved s = s\<lparr>pending := saved\<rparr>"
  by (simp add: FILEPOSTAMBLE_def PyErr_Restore_def PyErr_Occurred_def)

subsection \<open>Reading through the bridge\<close>

lemma xRead_returns_buffer:
  assumes "pyfile apswfile = Some f" and "read_buffer_of pybuf = Some data"
    and "0 \<le> amount" and "nat amount \<le> length bufout"
  shows "apswvfsfile_xRead mk (Returns pybuf) apswfile bufout amount offset s =
     (if int (length data) < amount
      then Some (SQLITE_IOERR_SHORT_READ,
             data @ replicate (nat amount - length data) 0 @ drop (nat amount) bufout,
             s)
      else Some (SQLITE_OK, take (nat amount) data @ drop (nat amount) bufout, s))"
proof -
  have fetch: "PyErr_Fetch s = (pending s, s\<lparr>pending := None\<rparr>)"
    by (simp add: PyErr_Fetch_def)
  have clean: "\<not> PyErr_Occurred (s\<lparr>pending := None\<rparr>)"
    by (simp add: PyErr_Occurred_def)
  have restored: "FILEPOSTAMBLE apswfile (pending s) (s\<lparr>pending := None\<rparr>) = s"
    by (simp add: FILEPOSTAMBLE_clean)
  have chk: "\<not> PyUnicode_Check pybuf" "PyObject_CheckReadBuffer pybuf"
    "PyObject_AsReadBuffer pybuf (s\<lparr>pending := None\<rparr>) = (Some data, s\<lparr>pending := None\<rparr>)"
    using assms(2)
    by (auto simp: read_buffer_of_def PyUnicode_Check_def PyObject_CheckReadBuffer_def
        PyObject_AsReadBuffer_def split: pyobj.splits)
  show ?thesis
  proof (cases "int (length data) < amount")
    case True
    then have len: "length data \<le> nat amount" by linarith
    have z: "memset bufout 0 amount
        = Some (replicate (nat amount) 0 @ drop (nat amount) bufout)"
      using assms(3,4) by (simp add: memset_def)
    have c: "memcpy (replicate (nat amount) 0 @ drop (nat amount) bufout) data (int (length data))
        = Some (data @ replicate (nat amount - length data) 0 @ drop (nat amount) bufout)"
      using len by (simp add: memcpy_def)
    show ?thesis
      using True assms(1) chk
      by (simp add: apswvfsfile_xRead_def FILEPREAMBLE_def fetch Call_PythonMethodV_def
          z c clean restored)
  next
    case False
    then have len: "nat amount \<le> length data" by linarith
    have c: "memcpy bufout data amount = Some (take (nat amount) data @ drop (nat amount) bufout)"
      using assms(3,4) len by (simp add: memcpy_def)
    show ?thesis
      using False assms(1) chk
      by (simp add: apswvfsfile_xRead_def FILEPREAMBLE_def fetch Call_PythonMethodV_def
          c clean restored)
  qed
qed

text \<open>
  Claim C1. When the managed \<^verbatim>\<open>xRead\<close> returns a buffer of fewer than \<open>amount\<close> bytes, the
  first \<open>amount\<close> bytes of the output buffer are the returned data followed by zero bytes,
  and the result is \<^verbatim>\<open>SQLITE_IOERR_SHORT_READ\<close>, which is not \<^verbatim>\<open>SQLITE_OK\<close>. When it returns at
  least \<open>amount\<close> bytes, the first \<open>amount\<close> of them are copied and the result is
  \<^verbatim>\<open>SQLITE_OK\<close>. In both cases nothing beyond the first \<open>amount\<close> bytes of the output buffer
  is written, and the interpreter state is left as it was.
\<close>

theorem C1_xRead_short_read_zero_fill:
  assumes "pyfile apswfile = Some f" and "read_buffer_of pybuf = Some data"
    and "0 \<le> amount" and "nat amount \<le> length bufout"
  shows "(int (length data) < amount \<longrightarrow>
            apswvfsfile_xRead mk (Returns pybuf) apswfile bufout amount offset s =
              Some (SQLITE_IOERR_SHORT_READ,
                    data @ replicate (nat amount - length data) 0 @ drop (nat amount) bufout, s)
            \<and> SQLITE_IOERR_SHORT_READ \<noteq> SQLITE_OK)
       \<and> (amount \<le> int (length data) \<longrightarrow>
            apswvfsfile_xRead mk (Returns pybuf) apswfile bufout amount offset s =
              Some (SQLITE_OK, take (nat amount) data @ drop (nat amount) bufout, s))"
proof -
  have "SQLITE_IOERR_SHORT_READ \<noteq> SQLITE_OK"
    by (simp add: SQLITE_IOERR_SHORT_READ_def SQLITE_IOERR_def SQLITE_OK_def)
  then show ?thesis
    using xRead_returns_buffer [OF assms, of mk offset s] by simp
qed

text \<open>
  The managed \<^verbatim>\<open>xRead\<close> returns the five bytes of "hello" for a request of ten: the ten
  bytes of the output buffer, \<open>0xAA\<close> before the call, are "hello" and five zero bytes.
\<close>

theorem C1_xRead_short_read_witness:
  "apswvfsfile_xRead example_mk (Returns (PyBytes [104, 101, 108, 108, 111]))
       example_file (replicate 10 170) 10 0 idle
     = Some (SQLITE_IOERR_SHORT_READ, [104, 101, 108, 108, 111, 0, 0, 0, 0, 0], idle)
   \<and> apswvfsfile_xRead example_mk (Returns (PyBytes [104, 101, 108, 108, 111]))
       example_file (replicate 10 170) 3 0 idle
     = Some (SQLITE_OK, [104, 101, 108, 170, 170, 170, 170, 170, 170, 170], idle)"
  using
    C1_xRead_short_read_zero_fill [of example_file "PyOpaque 1"
      "PyBytes [104, 101, 108, 108, 111]" "[104, 101, 108, 108, 111]" 10
      "replicate 10 170" example_mk 0 idle]
    C1_xRead_short_read_zero_fill [of example_file "PyOpaque 1"
      "PyBytes [104, 101, 108, 108, 111]" "[104, 101, 108, 108, 111]" 3
      "replicate 10 170" example_mk 0 idle]
  by (simp add: read_buffer_of_def example_file_def numeral_eq_Suc)

subsection \<open>Every native entry point restores the caller's pending exception\<close>

lemmas pyerr_defs = PyErr_Fetch_def Call_PythonMethodV_def
  PyErr_Format_def MakeSqliteMsgFromPyException_def PyErr_Clear_def PyErr_Occurred_def
  AddTraceBackHere_def apsw_write_unraiseable_def PyErr_Restore_def SET_EXC_def
  PyIntLong_AsLong_def PyObject_AsReadBuffer_def getutf8string_def PyLong_AsVoidPtr_def
  PyFloat_AsDouble_def PyList_New2_def PyLong_AsLongLong_def PyBytes_FromStringAndSize_def
  VFSPREAMBLE_def VFSPOSTAMBLE_def FILEPREAMBLE_def FILEPOSTAMBLE_def

lemma xDelete_exit:
  "apswvfs_xDelete mk m vfs name syncDir s = Some (r, s') \<Longrightarrow> exit_ok True (pAppData vfs) m s s'"
  by (auto simp: apswvfs_xDelete_def exit_ok_def pyerr_defs
      split: option.splits managed_result.splits if_splits prod.splits)

lemma xAccess_exit:
  "apswvfs_xAccess mk m vfs name flags p s = Some (r, p', s')
     \<Longrightarrow> exit_ok True (pAppData vfs) m s s'"
  by (auto simp: apswvfs_xAccess_def exit_ok_def pyerr_defs
      split: option.splits managed_result.splits if_splits prod.splits pyobj.splits)

lemma xFullPathname_exit:
  "apswvfs_xFullPathname mk utf8 m vfs name nOut zOut s = Some (r, z', s')
     \<Longrightarrow> exit_ok True (pAppData vfs) m s s'"
  by (auto simp: apswvfs_xFullPathname_def exit_ok_def pyerr_defs
      split: option.splits managed_result.splits if_splits prod.splits sum.splits)

lemma xOpen_exit:
  "apswvfs_xOpen mk m fl vfs name af inflags po s = Some (r, af', po', s')
     \<Longrightarrow> exit_ok (\<not> nomem s) (pAppData vfs) m s s'"
  by (auto simp: apswvfs_xOpen_def exit_ok_def pyerr_defs
      split: option.splits managed_result.splits if_splits prod.splits pyobj.splits)

lemma xDlOpen_exit:
  "apswvfs_xDlOpen m vfs name s = Some (r, s') \<Longrightarrow> exit_ok True (pAppData vfs) m s s'"
  by (auto simp: apswvfs_xDlOpen_def exit_ok_def pyerr_defs
      split: option.splits managed_result.splits if_splits prod.splits pyobj.splits)

lemma xDlSym_exit:
  "apswvfs_xDlSym m vfs h name s = Some (r, s') \<Longrightarrow> exit_ok True (pAppData vfs) m s s'"
  by (auto simp: apswvfs_xDlSym_def exit_ok_def pyerr_defs
      split: option.splits managed_result.splits if_splits prod.splits pyobj.splits)

lemma xDlClose_exit:
  "apswvfs_xDlClose m vfs h s = Some s' \<Longrightarrow> exit_ok True (pAppData vfs) m s s'"
  by (auto simp: apswvfs_xDlClose_def exit_ok_def pyerr_defs
      split: option.splits managed_result.splits if_splits prod.splits)

lemma xDlError_exit:
  "apswvfs_xDlError utf8 m vfs n z s = Some (z', s') \<Longrightarrow> exit_ok True (pAppData vfs) m s s'"
  by (auto simp: apswvfs_xDlError_def exit_ok_def pyerr_defs
      split: option.splits managed_result.splits if_splits prod.splits sum.splits)

lemma xRandomness_exit:
  "apswvfs_xRandomness m vfs n z s = Some (r, z', s') \<Longrightarrow> exit_ok True (pAppData vfs) m s s'"
  by (auto simp: apswvfs_xRandomness_def exit_ok_def pyerr_defs Let_def
      split: option.splits managed_result.splits if_splits prod.splits pyobj.splits)

lemma xSleep_exit:
  "apswvfs_xSleep m vfs n s = Some (r, s') \<Longrightarrow> exit_ok True (pAppData vfs) m s s'"
  by (auto simp: apswvfs_xSleep_def exit_ok_def pyerr_defs
      split: option.splits managed_result.splits if_splits prod.splits pyobj.splits)

lemma xCurrentTime_exit:
  "apswvfs_xCurrentTime as_double m vfs j s = Some (r, j', s')
     \<Longrightarrow> exit_ok True (pAppData vfs) m s s'"
  by (auto simp: apswvfs_xCurrentTime_def exit_ok_def pyerr_defs
      split: option.splits managed_result.splits if_splits prod.splits sum.splits)

lemma xGetLastError_exit:
  "apswvfs_xGetLastError utf8 m vfs n z s = Some (r, z', s')
     \<Longrightarrow> exit_ok True (pAppData vfs) m s s'"
  by (auto simp: apswvfs_xGetLastError_def exit_ok_def pyerr_defs Let_def
      split: option.splits managed_result.splits if_splits prod.splits sum.splits)

lemma file_xClose_exit:
  "apswvfsfile_xClose mk m af s = Some (r, af', s') \<Longrightarrow> exit_ok True None m s s'"
  by (auto simp: apswvfsfile_xClose_def exit_ok_def pyerr_defs Let_def
      split: option.splits managed_result.splits if_splits prod.splits)

lemma file_xRead_exit:
  "apswvfsfile_xRead mk m af b a off s = Some (r, b', s') \<Longrightarrow> exit_ok True (pyfile af) m s s'"
  by (auto simp: apswvfsfile_xRead_def exit_ok_def pyerr_defs
      split: option.splits managed_result.splits if_splits prod.splits pyobj.splits)

lemma file_xWrite_exit:
  "apswvfsfile_xWrite mk m af b a off s = Some (r, s')
     \<Longrightarrow> exit_ok (0 \<le> a \<and> \<not> nomem s) (pyfile af) m s s'"
  by (auto simp: apswvfsfile_xWrite_def exit_ok_def pyerr_defs Let_def
      split: option.splits managed_result.splits if_splits prod.splits)

lemma file_xTruncate_exit:
  "apswvfsfile_xTruncate mk m af a s = Some (r, s') \<Longrightarrow> exit_ok True (pyfile af) m s s'"
  by (auto simp: apswvfsfile_xTruncate_def exit_ok_def pyerr_defs Let_def
      split: option.splits managed_result.splits if_splits prod.splits)

lemma file_xSync_exit:
  "apswvfsfile_xSync mk m af a s = Some (r, s') \<Longrightarrow> exit_ok True (pyfile af) m s s'"
  by (auto simp: apswvfsfile_xSync_def exit_ok_def pyerr_defs Let_def
      split: option.splits managed_result.splits if_splits prod.splits)

lemma file_xUnlock_exit:
  "apswvfsfile_xUnlock mk m af a s = Some (r, s') \<Longrightarrow> exit_ok True (pyfile af) m s s'"
  by (auto simp: apswvfsfile_xUnlock_def exit_ok_def pyerr_defs Let_def
      split: option.splits managed_result.splits if_splits prod.splits)

lemma file_xFileSize_exit:
  "apswvfsfile_xFileSize mk m af a s = Some (r, a', s') \<Longrightarrow> exit_ok True (pyfile af) m s s'"
  by (auto simp: apswvfsfile_xFileSize_def exit_ok_def pyerr_defs PyLong_Check_def
      split: option.splits managed_result.splits if_splits prod.splits pyobj.splits)

lemma file_xCheckReservedLock_exit:
  "apswvfsfile_xCheckReservedLock mk m af a s = Some (r, a', s')
     \<Longrightarrow> exit_ok True (pyfile af) m s s'"
  by (auto simp: apswvfsfile_xCheckReservedLock_def exit_ok_def pyerr_defs
      split: option.splits managed_result.splits if_splits prod.splits pyobj.splits)

lemma file_xFileControl_exit:
  "apswvfsfile_xFileControl mk m af a b s = Some (r, s') \<Longrightarrow> exit_ok True (pyfile af) m s s'"
  by (auto simp: apswvfsfile_xFileControl_def exit_ok_def pyerr_defs Let_def
      split: option.splits managed_result.splits if_splits prod.splits)

lemma file_xSectorSize_exit:
  "apswvfsfile_xSectorSize mk m af s = Some (r, s') \<Longrightarrow> exit_ok True (pyfile af) m s s'"
  by (auto simp: apswvfsfile_xSectorSize_def exit_ok_def pyerr_defs
      split: option.splits managed_result.splits if_splits prod.splits pyobj.splits)

lemma file_xDeviceCharacteristics_exit:
  "apswvfsfile_xDeviceCharacteristics mk m af s = Some (r, s')
     \<Longrightarrow> exit_ok True (pyfile af) m s s'"
  by (auto simp: apswvfsfile_xDeviceCharacteristics_def exit_ok_def pyerr_defs
      split: option.splits managed_result.splits if_splits prod.splits pyobj.splits)

text \<open>\<^verbatim>\<open>xLock\<close> is the one entry point that clears an exception of the managed method.\<close>

lemma file_xLock_raises:
  assumes "pyfile apswfile = Some f"
  shows "apswvfsfile_xLock mk (Raises e) apswfile flag s =
           Some (mk e,
                 if SQLITE_BUSY = mk e AND 255 then s
                 else s\<lparr>unraisable := unraisable s @ [(Some f, (e, [''apswvfsfile.xLock'']))]\<rparr>)"
  using assms by (simp add: apswvfsfile_xLock_def pyerr_defs)

lemma file_xLock_exit:
  "apswvfsfile_xLock mk m af a s = Some (r, s') \<Longrightarrow>
     pending s' = pending s \<and>
     (\<forall>e. m = Raises e \<longrightarrow>
        (if SQLITE_BUSY = mk e AND 255 then unraisable s' = unraisable s
         else \<exists>tb. unraisable s' = unraisable s @ [(pyfile af, (e, tb))]))"
  by (auto simp: apswvfsfile_xLock_def pyerr_defs Let_def
      split: option.splits managed_result.splits if_splits prod.splits)

lemmas exit_lemmas = xDelete_exit xAccess_exit xFullPathname_exit xOpen_exit xDlOpen_exit
  xDlSym_exit xDlClose_exit xDlError_exit xRandomness_exit xSleep_exit xCurrentTime_exit
  xGetLastError_exit file_xClose_exit file_xRead_exit file_xWrite_exit file_xTruncate_exit
  file_xSync_exit file_xUnlock_exit file_xFileSize_exit file_xCheckReservedLock_exit
  file_xFileControl_exit file_xSectorSize_exit file_xDeviceCharacteristics_exit

text \<open>
  Claim C2, as amended. Whichever of the twenty-four entry points the engine calls, and
  whatever the managed method does, the exception that was pending when the entry point was
  entered is pending again when it returns. An exception that the managed method raised has
  been handed to the unraisable sink, with one exception: a busy exception raised by the
  managed \<^verbatim>\<open>xLock\<close> is cleared and the sink does not get it.
\<close>

theorem C2_pending_exception_restored:
  assumes "native_call_exit mk utf8 as_double m vfs apswfile c s = Some s'"
  shows "pending s' = pending s \<and>
     (\<forall>e. m = Raises e \<and> managed_called c s \<longrightarrow>
        (if is_xLock c \<and> SQLITE_BUSY = mk e AND 255 then unraisable s' = unraisable s
         else \<exists>tb. unraisable s' = unraisable s @ [(sink_hook vfs apswfile c, (e, tb))]))"
proof (cases c)
  case (file_xLock flag)
  then show ?thesis
    using assms file_xLock_exit [of mk m apswfile flag s]
    by (auto simp: native_call_exit_def managed_called_def sink_hook_def is_xLock_def)
qed (use assms in \<open>auto simp: native_call_exit_def managed_called_def sink_hook_def is_xLock_def
      exit_ok_def dest!: exit_lemmas\<close>)

text \<open>
  The engine calls \<^verbatim>\<open>xRead\<close> while a \<^verbatim>\<open>ValueError\<close> of its caller is pending, and the managed
  \<^verbatim>\<open>xRead\<close> raises: the \<^verbatim>\<open>ValueError\<close> is pending again on return and the new exception is in
  the sink.
\<close>

theorem C2_pending_exception_restored_witness:
  "native_call_exit example_mk example_utf8 example_as_double (Raises (PyExc_Other 7)) example_vfs example_file
       (file_xRead [] 0 0) (idle\<lparr>pending := Some (PyExc_ValueError ''outer'', [])\<rparr>)
     = Some (idle\<lparr>pending := Some (PyExc_ValueError ''outer'', []),
                  unraisable := [(Some (PyOpaque 1), (PyExc_Other 7, [''apswvfsfile_xRead'']))]\<rparr>)
   \<and> (\<exists>tb. [(Some (PyOpaque 1), (PyExc_Other 7, [''apswvfsfile_xRead'']))]
            = [] @ [(sink_hook example_vfs example_file (file_xRead [] 0 0), (PyExc_Other 7, tb))])"
proof -
  have run: "native_call_exit example_mk example_utf8 example_as_double (Raises (PyExc_Other 7)) example_vfs
       example_file (file_xRead [] 0 0) (idle\<lparr>pending := Some (PyExc_ValueError ''outer'', [])\<rparr>)
     = Some (idle\<lparr>pending := Some (PyExc_ValueError ''outer'', []),
                  unraisable := [(Some (PyOpaque 1), (PyExc_Other 7, [''apswvfsfile_xRead'']))]\<rparr>)"
    by (simp add: native_call_exit_def apswvfsfile_xRead_def pyerr_defs example_file_def
        example_mk_def idle_def)
  show ?thesis
    using C2_pending_exception_restored [OF run] run
    by (simp add: managed_called_def is_xLock_def idle_def)
qed

text \<open>
  The claim as it was stated fails at \<^verbatim>\<open>xLock\<close>: the managed method raises the exception of
  \<^verbatim>\<open>SQLITE_BUSY\<close>, and the entry point returns with nothing in the sink.
\<close>

theorem C2_busy_not_in_sink_counterexample:
  "native_call_exit example_mk example_utf8 example_as_double (Raises (APSWException 5)) example_vfs example_file
       (file_xLock 1) idle = Some idle"
  by (simp add: native_call_exit_def apswvfsfile_xLock_def pyerr_defs example_file_def
      example_mk_def idle_def SQLITE_BUSY_def)

subsection \<open>Locking\<close>

text \<open>
  Claim C7. When the managed \<^verbatim>\<open>xLock\<close> raises an exception whose result code has the
  primary code \<^verbatim>\<open>SQLITE_BUSY\<close> (the test vfs.c makes), that code is returned, the exception is
  cleared and the interpreter state is as before the call: nothing reaches the sink. Any
  other exception is converted to its result code, which is returned, and the exception is
  handed to the sink.
\<close>

theorem C7_xLock_busy_suppressed:
  assumes "pyfile apswfile = Some f"
  shows "(SQLITE_BUSY = mk e AND 255 \<longrightarrow>
            apswvfsfile_xLock mk (Raises e) apswfile flag s = Some (mk e, s))
       \<and> (SQLITE_BUSY \<noteq> mk e AND 255 \<longrightarrow>
            apswvfsfile_xLock mk (Raises e) apswfile flag s =
              Some (mk e,
                    s\<lparr>unraisable := unraisable s @ [(Some f, (e, [''apswvfsfile.xLock'']))]\<rparr>))"
  using file_xLock_raises [OF assms, of mk e flag s] by simp

theorem C7_xLock_busy_suppressed_witness:
  "apswvfsfile_xLock example_mk (Raises (APSWException 5)) example_file 1 idle
     = Some (SQLITE_BUSY, idle)
   \<and> apswvfsfile_xLock example_mk (Raises (PyExc_Other 3)) example_file 1 idle
     = Some (SQLITE_ERROR,
             idle\<lparr>unraisable := [(Some (PyOpaque 1), (PyExc_Other 3, [''apswvfsfile.xLock'']))]\<rparr>)"
  using
    C7_xLock_busy_suppressed [of example_file "PyOpaque 1" example_mk "APSWException 5" 1 idle]
    C7_xLock_busy_suppressed [of example_file "PyOpaque 1" example_mk "PyExc_Other 3" 1 idle]
  by (simp add: example_file_def example_mk_def SQLITE_BUSY_def SQLITE_ERROR_def idle_def)

subsection \<open>The full pathname\<close>

text \<open>
  Claim C5. The managed \<^verbatim>\<open>xFullPathname\<close> returns a string whose UTF-8 encoding is \<open>b\<close>, and
  the output buffer has at least the \<open>nOut\<close> bytes the engine announces. If \<open>b\<close> with its
  terminator is longer than \<open>nOut\<close>, the result is \<^verbatim>\<open>SQLITE_TOOBIG\<close>, the output buffer is as
  it was (no truncated path is copied) and the exception of that code goes to the sink.
  Otherwise \<open>b\<close> and the terminator are copied to the start of the buffer and the result is
  \<^verbatim>\<open>SQLITE_OK\<close>.
\<close>

theorem C5_xFullPathname_too_long:
  assumes "pAppData vfs = Some self" and "utf8 pyresult = Inr b"
    and "nOut \<le> int (length zOut)"
  shows "(int (length b) + 1 > nOut \<longrightarrow>
            apswvfs_xFullPathname mk utf8 (Returns pyresult) vfs name nOut zOut s =
              Some (SQLITE_TOOBIG, zOut,
                    s\<lparr>unraisable := unraisable s @
                        [(Some self, (APSWException SQLITE_TOOBIG, [''vfs.xFullPathname'']))]\<rparr>))
       \<and> (int (length b) + 1 \<le> nOut \<longrightarrow>
            apswvfs_xFullPathname mk utf8 (Returns pyresult) vfs name nOut zOut s =
              Some (SQLITE_OK, b @ [0] @ drop (length b + 1) zOut, s))"
  using assms
  by (auto simp add: apswvfs_xFullPathname_def pyerr_defs SQLITE_TOOBIG_def SQLITE_OK_def
      memcpy_def PyBytes_AS_STRING_def nat_add_distrib)

text \<open>
  The managed method returns \<^verbatim>\<open>"/ab"\<close>. With a capacity of 3 bytes the call fails and the
  buffer keeps its content; with a capacity of 4 bytes the path and its terminator are
  copied.
\<close>

theorem C5_xFullPathname_too_long_witness:
  "apswvfs_xFullPathname example_mk example_utf8 (Returns (PyUnicode [47, 97, 98])) example_vfs
       ''ab'' 3 [1, 2, 3] idle
     = Some (SQLITE_TOOBIG, [1, 2, 3],
             idle\<lparr>unraisable :=
               [(Some (PyOpaque 0), (APSWException SQLITE_TOOBIG, [''vfs.xFullPathname'']))]\<rparr>)
   \<and> apswvfs_xFullPathname example_mk example_utf8 (Returns (PyUnicode [47, 97, 98])) example_vfs
       ''ab'' 4 [1, 2, 3, 4, 5] idle
     = Some (SQLITE_OK, [47, 97, 98, 0, 5], idle)"
  using
    C5_xFullPathname_too_long [of example_vfs "PyOpaque 0" example_utf8 "PyUnicode [47, 97, 98]"
      "[47, 97, 98]" 3 "[1, 2, 3]" example_mk "''ab''" idle]
    C5_xFullPathname_too_long [of example_vfs "PyOpaque 0" example_utf8 "PyUnicode [47, 97, 98]"
      "[47, 97, 98]" 4 "[1, 2, 3, 4, 5]" example_mk "''ab''" idle]
  by (simp add: example_vfs_def example_utf8_def idle_def)

subsection \<open>The access check\<close>

text \<open>
  Claim C10, as amended. The conversion of an exception to a result code never gives
  \<^verbatim>\<open>SQLITE_OK\<close>. The managed \<^verbatim>\<open>xAccess\<close> returns an integer that fits a C \<^verbatim>\<open>long\<close>: the
  out-parameter is 1 if it is not zero and 0 if it is, and the result is \<^verbatim>\<open>SQLITE_OK\<close>. On
  every other path, which are the fault paths (the integer does not fit and an
  \<^verbatim>\<open>OverflowError\<close> is raised, the object is no integer and a \<^verbatim>\<open>TypeError\<close> is raised, the
  method raises), the out-parameter is 0, the result is a failure code, namely the code of
  the exception, and the exception goes to the sink. In every case the out-parameter is
  written, as 0 or as 1.
\<close>

theorem C10_xAccess_out_parameter:
  assumes "pAppData vfs = Some self" and "\<forall>e. mk e \<noteq> SQLITE_OK"
  shows "(\<forall>i. LONG_MIN \<le> i \<and> i \<le> LONG_MAX \<longrightarrow>
            apswvfs_xAccess mk (Returns (PyInt i)) vfs name flags pResOut s =
              Some (SQLITE_OK, if i = 0 then 0 else 1, s))
       \<and> (\<forall>i. \<not> (LONG_MIN \<le> i \<and> i \<le> LONG_MAX) \<longrightarrow>
            apswvfs_xAccess mk (Returns (PyInt i)) vfs name flags pResOut s =
              Some (mk (PyExc_OverflowError ''Python int too large to convert to C long''), 0,
                    s\<lparr>unraisable := unraisable s @
                        [(Some self,
                          (PyExc_OverflowError ''Python int too large to convert to C long'',
                           [''vfs.xAccess'']))]\<rparr>))
       \<and> (\<forall>r. \<not> PyIntLong_Check r \<longrightarrow>
            apswvfs_xAccess mk (Returns r) vfs name flags pResOut s =
              Some (mk (PyExc_TypeError ''xAccess should return a number''), 0,
                    s\<lparr>unraisable := unraisable s @
                        [(Some self,
                          (PyExc_TypeError ''xAccess should return a number'',
                           [''vfs.xAccess'']))]\<rparr>))
       \<and> (\<forall>e. apswvfs_xAccess mk (Raises e) vfs name flags pResOut s =
              Some (mk e, 0,
                    s\<lparr>unraisable := unraisable s @ [(Some self, (e, [''vfs.xAccess'']))]\<rparr>))
       \<and> (\<exists>r out s'. apswvfs_xAccess mk m vfs name flags pResOut s = Some (r, out, s')
              \<and> (out = 0 \<or> out = 1)
              \<and> ((\<exists>i. m = Returns (PyInt i) \<and> LONG_MIN \<le> i \<and> i \<le> LONG_MAX)
                    \<longrightarrow> r = SQLITE_OK \<and> s' = s)
              \<and> (\<not> (\<exists>i. m = Returns (PyInt i) \<and> LONG_MIN \<le> i \<and> i \<le> LONG_MAX)
                    \<longrightarrow> r \<noteq> SQLITE_OK \<and> out = 0
                        \<and> (\<exists>err. unraisable s' = unraisable s @ [(Some self, err)])))"
proof -
  have eqs: "(\<forall>i. LONG_MIN \<le> i \<and> i \<le> LONG_MAX \<longrightarrow>
            apswvfs_xAccess mk (Returns (PyInt i)) vfs name flags pResOut s =
              Some (SQLITE_OK, if i = 0 then 0 else 1, s))
       \<and> (\<forall>i. \<not> (LONG_MIN \<le> i \<and> i \<le> LONG_MAX) \<longrightarrow>
            apswvfs_xAccess mk (Returns (PyInt i)) vfs name flags pResOut s =
              Some (mk (PyExc_OverflowError ''Python int too large to convert to C long''), 0,
                    s\<lparr>unraisable := unraisable s @
                        [(Some self,
                          (PyExc_OverflowError ''Python int too large to convert to C long'',
                           [''vfs.xAccess'']))]\<rparr>))
       \<and> (\<forall>r. \<not> PyIntLong_Check r \<longrightarrow>
            apswvfs_xAccess mk (Returns r) vfs name flags pResOut s =
              Some (mk (PyExc_TypeError ''xAccess should return a number''), 0,
                    s\<lparr>unraisable := unraisable s @
                        [(Some self,
                          (PyExc_TypeError ''xAccess should return a number'',
                           [''vfs.xAccess'']))]\<rparr>))
       \<and> (\<forall>e. apswvfs_xAccess mk (Raises e) vfs name flags pResOut s =
              Some (mk e, 0,
                    s\<lparr>unraisable := unraisable s @ [(Some self, (e, [''vfs.xAccess'']))]\<rparr>))"
    using assms(1)
    by (auto simp add: apswvfs_xAccess_def pyerr_defs PyIntLong_Check_def not_not_def)
  have all: "\<exists>r out s'. apswvfs_xAccess mk m vfs name flags pResOut s = Some (r, out, s')
              \<and> (out = 0 \<or> out = 1)
              \<and> ((\<exists>i. m = Returns (PyInt i) \<and> LONG_MIN \<le> i \<and> i \<le> LONG_MAX)
                    \<longrightarrow> r = SQLITE_OK \<and> s' = s)
              \<and> (\<not> (\<exists>i. m = Returns (PyInt i) \<and> LONG_MIN \<le> i \<and> i \<le> LONG_MAX)
                    \<longrightarrow> r \<noteq> SQLITE_OK \<and> out = 0
                        \<and> (\<exists>err. unraisable s' = unraisable s @ [(Some self, err)]))"
  proof (cases m)
    case (Raises e)
    with eqs assms(2) show ?thesis by simp
  next
    case (Returns r)
    show ?thesis
    proof (cases "PyIntLong_Check r")
      case False
      then have "\<not> (\<exists>i. r = PyInt i)" by (auto simp: PyIntLong_Check_def)
      with False Returns eqs assms(2) show ?thesis by simp
    next
      case True
      then obtain i where r: "r = PyInt i"
        by (cases r) (auto simp: PyIntLong_Check_def)
      show ?thesis
      proof (cases "LONG_MIN \<le> i \<and> i \<le> LONG_MAX")
        case True
        with r Returns eqs show ?thesis by simp
      next
        case False
        with r Returns eqs assms(2) show ?thesis by simp
      qed
    qed
  qed
  from eqs all show ?thesis by blast
qed

theorem C10_xAccess_out_parameter_witness:
  "apswvfs_xAccess (\<lambda>e. SQLITE_ERROR) (Returns (PyInt (-3))) example_vfs ''f'' 0 7 idle
     = Some (SQLITE_OK, 1, idle)
   \<and> apswvfs_xAccess (\<lambda>e. SQLITE_ERROR) (Returns (PyInt 0)) example_vfs ''f'' 0 7 idle
     = Some (SQLITE_OK, 0, idle)
   \<and> apswvfs_xAccess (\<lambda>e. SQLITE_ERROR) (Returns Py_None) example_vfs ''f'' 0 7 idle
     = Some (SQLITE_ERROR, 0,
             idle\<lparr>unraisable :=
               [(Some (PyOpaque 0),
                 (PyExc_TypeError ''xAccess should return a number'', [''vfs.xAccess'']))]\<rparr>)
   \<and> SQLITE_ERROR \<noteq> SQLITE_OK"
  using C10_xAccess_out_parameter [of example_vfs "PyOpaque 0" "\<lambda>e. SQLITE_ERROR" "''f''" 0 7 idle]
  by (simp add: example_vfs_def idle_def LONG_MIN_def LONG_MAX_def PyIntLong_Check_def
      SQLITE_ERROR_def SQLITE_OK_def)

text \<open>
  The claim as it was stated fails for an integer that does not fit a C \<^verbatim>\<open>long\<close>: the managed
  \<^verbatim>\<open>xAccess\<close> returns \<open>2\<^sup>6\<^sup>4\<close>, which is not zero, and the out-parameter is 0, with a failure
  code.
\<close>

theorem C10_huge_integer_counterexample:
  "apswvfs_xAccess example_mk (Returns (PyInt (2 ^ 64))) example_vfs ''f'' 0 7 idle
     = Some (SQLITE_ERROR, 0,
             idle\<lparr>unraisable :=
               [(Some (PyOpaque 0),
                 (PyExc_OverflowError ''Python int too large to convert to C long'',
                  [''vfs.xAccess'']))]\<rparr>)"
  by (simp add: apswvfs_xAccess_def pyerr_defs PyIntLong_Check_def example_vfs_def
      example_mk_def idle_def LONG_MIN_def LONG_MAX_def)

subsection \<open>Operations on a closed file\<close>

text \<open>
  Claim C6. On a closed file (\<^verbatim>\<open>self->base\<close> is null) each of the eleven methods other than
  \<^verbatim>\<open>xClose\<close> returns null with \<^verbatim>\<open>VFSFileClosed\<close> pending, and nothing else changes: the state
  of the native implementation is as it was and the log has no call of a native member.
\<close>

theorem C6_closed_file_operations_fail:
  assumes "base self = None"
  shows "apswvfsfilepy_xRead self args st = Some (None, self, py_raise
           (ExcVFSFileClosed ''VFSFileClosed: Attempting operation on closed file'') st)
       \<and> apswvfsfilepy_xWrite self args st = Some (None, self, py_raise
           (ExcVFSFileClosed ''VFSFileClosed: Attempting operation on closed file'') st)
       \<and> apswvfsfilepy_xTruncate self args st = Some (None, self, py_raise
           (ExcVFSFileClosed ''VFSFileClosed: Attempting operation on closed file'') st)
       \<and> apswvfsfilepy_xSync self args st = Some (None, self, py_raise
           (ExcVFSFileClosed ''VFSFileClosed: Attempting operation on closed file'') st)
       \<and> apswvfsfilepy_xLock self args st = Some (None, self, py_raise
           (ExcVFSFileClosed ''VFSFileClosed: Attempting operation on closed file'') st)
       \<and> apswvfsfilepy_xUnlock self args st = Some (None, self, py_raise
           (ExcVFSFileClosed ''VFSFileClosed: Attempting operation on closed file'') st)
       \<and> apswvfsfilepy_xCheckReservedLock self st = Some (None, self, py_raise
           (ExcVFSFileClosed ''VFSFileClosed: Attempting operation on closed file'') st)
       \<and> apswvfsfilepy_xFileControl self args st = Some (None, self, py_raise
           (ExcVFSFileClosed ''VFSFileClosed: Attempting operation on closed file'') st)
       \<and> apswvfsfilepy_xSectorSize self st = Some (None, self, py_raise
           (ExcVFSFileClosed ''VFSFileClosed: Attempting operation on closed file'') st)
       \<and> apswvfsfilepy_xDeviceCharacteristics self st = Some (None, self, py_raise
           (ExcVFSFileClosed ''VFSFileClosed: Attempting operation on closed file'') st)
       \<and> apswvfsfilepy_xFileSize self st = Some (None, self, py_raise
           (ExcVFSFileClosed ''VFSFileClosed: Attempting operation on closed file'') st)
       \<and> world (py_raise
           (ExcVFSFileClosed ''VFSFileClosed: Attempting operation on closed file'') st) = world st
       \<and> events (py_raise
           (ExcVFSFileClosed ''VFSFileClosed: Attempting operation on closed file'') st) = events st
       \<and> pending (interp (py_raise
           (ExcVFSFileClosed ''VFSFileClosed: Attempting operation on closed file'') st))
           = Some (ExcVFSFileClosed ''VFSFileClosed: Attempting operation on closed file'', [])"
  using assms
  by (simp add: CHECKVFSFILEPY_def py_raise_def PyErr_Format_def
      apswvfsfilepy_xRead_def apswvfsfilepy_xWrite_def apswvfsfilepy_xTruncate_def
      apswvfsfilepy_xSync_def apswvfsfilepy_xLock_def apswvfsfilepy_xUnlock_def
      apswvfsfilepy_xCheckReservedLock_def apswvfsfilepy_xFileControl_def
      apswvfsfilepy_xSectorSize_def apswvfsfilepy_xDeviceCharacteristics_def
      apswvfsfilepy_xFileSize_def)

text \<open>A read of ten bytes from a closed file over the in-memory implementation.\<close>

theorem C6_closed_file_operations_fail_witness:
  "apswvfsfilepy_xRead \<lparr>base = None\<rparr> [PyInt 10, PyInt 0]
       \<lparr>world = [1, 2, 3 :: byte], interp = idle, junk = [], events = []\<rparr>
     = Some (None, \<lparr>base = None\<rparr>,
         \<lparr>world = [1, 2, 3],
          interp = idle\<lparr>pending := Some
            (ExcVFSFileClosed ''VFSFileClosed: Attempting operation on closed file'', [])\<rparr>,
          junk = [], events = []\<rparr>)"
  using C6_closed_file_operations_fail [of "\<lparr>base = None\<rparr>" "[PyInt 10, PyInt 0]"
      "\<lparr>world = [1, 2, 3 :: byte], interp = idle, junk = [], events = []\<rparr>"]
  by (simp add: py_raise_def PyErr_Format_def)

subsection \<open>Closing a file\<close>

lemma xClose_closed: "base self = None \<Longrightarrow> apswvfsfilepy_xClose self st = Some (Some Py_None, self, st)"
  by (simp add: apswvfsfilepy_xClose_def)

lemma xClose_open:
  assumes "base self = Some f" and "pMethods f = Some io" and "xClose io = Some native"
    and "native (world st) (interp st) = Some (res, w, py)"
  shows "apswvfsfilepy_xClose self st =
     Some (if res = SQLITE_OK then Some Py_None else None,
           self\<lparr>base := None\<rparr>,
           st\<lparr>world := w,
              interp := (if res = SQLITE_OK then py else SET_EXC res py),
              events := events st @ [NativeCall ''xClose'', MethodsNulled, Freed]\<rparr>)"
  using assms by (simp add: apswvfsfilepy_xClose_def after_native_def)

text \<open>
  Claim C3, as amended. An open file is closed. The native \<^verbatim>\<open>xClose\<close> is called once; only
  then \<^verbatim>\<open>pMethods\<close> is set to null, the memory of the native file is freed once and
  \<^verbatim>\<open>self->base\<close> is set to null, whatever the native \<^verbatim>\<open>xClose\<close> reported. The call returns
  \<^verbatim>\<open>None\<close> when the native \<^verbatim>\<open>xClose\<close> reported \<^verbatim>\<open>SQLITE_OK\<close>; otherwise it raises the exception
  of the reported code. A further close of the file, in any state, returns \<^verbatim>\<open>None\<close> and
  changes nothing: no native call and no second free.
\<close>

theorem C3_close_twice:
  assumes "base self = Some f" and "pMethods f = Some io" and "xClose io = Some native"
    and "native (world st) (interp st) = Some (res, w, py)"
  shows "apswvfsfilepy_xClose self st =
           Some (if res = SQLITE_OK then Some Py_None else None,
                 self\<lparr>base := None\<rparr>,
                 st\<lparr>world := w,
                    interp := (if res = SQLITE_OK then py else SET_EXC res py),
                    events := events st @ [NativeCall ''xClose'', MethodsNulled, Freed]\<rparr>)
       \<and> (\<forall>st'. apswvfsfilepy_xClose (self\<lparr>base := None\<rparr>) st' =
                   Some (Some Py_None, self\<lparr>base := None\<rparr>, st'))"
  using xClose_open [OF assms] by (simp add: xClose_closed)

text \<open>
  The native file is one of the bridge: its \<^verbatim>\<open>xClose\<close> calls a managed \<^verbatim>\<open>xClose\<close>, which
  returns \<^verbatim>\<open>None\<close>, and drops the managed file object. Both closes return \<^verbatim>\<open>None\<close>, and the
  second leaves the log at one call and one free.
\<close>

theorem C3_close_twice_witness:
  "apswvfsfilepy_xClose \<lparr>base = Some \<lparr>pMethods = Some closing_io_methods\<rparr>\<rparr>
       \<lparr>world = example_file, interp = idle, junk = [], events = []\<rparr>
     = Some (Some Py_None, \<lparr>base = None\<rparr>,
         \<lparr>world = example_file\<lparr>pyfile := None\<rparr>, interp = idle, junk = [],
          events = [NativeCall ''xClose'', MethodsNulled, Freed]\<rparr>)
   \<and> apswvfsfilepy_xClose (\<lparr>base = None\<rparr> :: APSWSQLite3File APSWVFSFile)
       \<lparr>world = example_file\<lparr>pyfile := None\<rparr>, interp = idle, junk = [],
        events = [NativeCall ''xClose'', MethodsNulled, Freed]\<rparr>
     = Some (Some Py_None, \<lparr>base = None\<rparr>,
         \<lparr>world = example_file\<lparr>pyfile := None\<rparr>, interp = idle, junk = [],
          events = [NativeCall ''xClose'', MethodsNulled, Freed]\<rparr>)"
proof -
  have native: "apswvfsfile_xClose example_mk (Returns Py_None) example_file idle
      = Some (SQLITE_OK, example_file\<lparr>pyfile := None\<rparr>, idle)"
    by (simp add: apswvfsfile_xClose_def pyerr_defs example_file_def idle_def)
  show ?thesis
    using C3_close_twice [of "\<lparr>base = Some \<lparr>pMethods = Some closing_io_methods\<rparr>\<rparr>"
        "\<lparr>pMethods = Some closing_io_methods\<rparr>" closing_io_methods
        "\<lambda>apswfile py. apswvfsfile_xClose example_mk (Returns Py_None) apswfile py"
        "\<lparr>world = example_file, interp = idle, junk = [], events = []\<rparr>"
        SQLITE_OK "example_file\<lparr>pyfile := None\<rparr>" idle]
      native
    by (simp add: closing_io_methods_def)
qed

text \<open>
  The claim as it was stated fails when the native \<^verbatim>\<open>xClose\<close> reports a failure: the first
  close returns null, with the exception of \<^verbatim>\<open>SQLITE_IOERR\<close> pending, and not \<^verbatim>\<open>None\<close>.
\<close>

theorem C3_first_close_fails_counterexample:
  "apswvfsfilepy_xClose \<lparr>base = Some \<lparr>pMethods = Some failing_io_methods\<rparr>\<rparr>
       \<lparr>world = (), interp = idle, junk = [], events = []\<rparr>
     = Some (None, \<lparr>base = None\<rparr>,
         \<lparr>world = (), interp = idle\<lparr>pending := Some (APSWException SQLITE_IOERR, [])\<rparr>,
          junk = [], events = [NativeCall ''xClose'', MethodsNulled, Freed]\<rparr>)"
  by (simp add: apswvfsfilepy_xClose_def failing_io_methods_def after_native_def SET_EXC_def
      PyErr_Occurred_def PyErr_Format_def idle_def SQLITE_IOERR_def SQLITE_OK_def)

subsection \<open>Reading through an inherited file\<close>







subsection \<open>Construction and registration\<close>









end
